theory Spec2Isabelle
  imports Main "HOL-Library.Sublist"
begin

section \<open>JavaScript values\<close>

text \<open>
  The dashboard server exists in two variants: \<^verbatim>\<open>src/server.js\<close> validates a signed token
  locally (the JWT variant, functions suffixed \<open>_jwt\<close> where the two differ) and
  \<^verbatim>\<open>src/unnamed/part_000\<close> asks the identity provider (the cookie variant, suffix
  \<open>_cookie\<close>). The handlers of \<^verbatim>\<open>POST /api/reminders\<close> and
  \<^verbatim>\<open>POST /api/reminders/:id/complete\<close> are the same text in both.

  A value parsed from JSON is a \<open>json\<close>; a JavaScript value that may be \<^verbatim>\<open>undefined\<close> is
  a \<open>json option\<close> with \<open>None\<close> for \<^verbatim>\<open>undefined\<close>, so a parsed document holds no
  \<^verbatim>\<open>undefined\<close> by its type. Numbers are integers (no handler does arithmetic on a
  number; only its truthiness and its identity are read). A string is a list of 8-bit
  characters, text outside ASCII being held in UTF-8. An object is the list of its
  properties in insertion order, each name once.
\<close>

datatype json =
    JNull
  | JBool bool
  | JNum int
  | JStr string
  | JArr "json list"
  | JObj "(string \<times> json) list"

type_synonym jsval = "json option"

text \<open>What a \<^verbatim>\<open>throw\<close> carries. No \<^verbatim>\<open>catch\<close> of the program inspects it.\<close>

datatype exn =
    TypeError
  | FetchError
  | SyntaxError
  | JsonWebTokenError
  | Error string

text \<open>\<^verbatim>\<open>!!v\<close>: \<^verbatim>\<open>undefined\<close>, \<^verbatim>\<open>null\<close>, \<^verbatim>\<open>false\<close>, \<^verbatim>\<open>0\<close> and \<^verbatim>\<open>''\<close> are falsy.\<close>

fun truthy :: "jsval \<Rightarrow> bool" where
  "truthy None = False"
| "truthy (Some JNull) = False"
| "truthy (Some (JBool b)) = b"
| "truthy (Some (JNum n)) = (n \<noteq> 0)"
| "truthy (Some (JStr s)) = (s \<noteq> [])"
| "truthy (Some (JArr xs)) = True"
| "truthy (Some (JObj kvs)) = True"

text \<open>
  \<^verbatim>\<open>a || b\<close> where both operands are a string or \<^verbatim>\<open>undefined\<close>, \<^verbatim>\<open>!v\<close> for such a
  value, and \<^verbatim>\<open>a || b\<close> where \<open>b\<close> is never \<^verbatim>\<open>undefined\<close>.
\<close>

definition str_or :: "string option \<Rightarrow> string option \<Rightarrow> string option" where
  "str_or a b = (if truthy (map_option JStr a) then a else b)"

definition falsy_str :: "string option \<Rightarrow> bool" where
  "falsy_str v = (\<not> truthy (map_option JStr v))"

definition or_else :: "jsval \<Rightarrow> json \<Rightarrow> json" where
  "or_else a b = (case a of None \<Rightarrow> b | Some v \<Rightarrow> if truthy (Some v) then v else b)"

text \<open>
  \<^verbatim>\<open>v.p\<close> for the property names this program reads (\<^verbatim>\<open>count\<close>, \<^verbatim>\<open>stats\<close>,
  \<^verbatim>\<open>reminders\<close>, \<^verbatim>\<open>id\<close>, \<^verbatim>\<open>completed\<close>, \<^verbatim>\<open>title\<close>, ...): none of them is a
  property of a string, an array, a number or a boolean, nor inherited by an object.
  Reading a property of \<^verbatim>\<open>undefined\<close> or \<^verbatim>\<open>null\<close> throws a TypeError.
\<close>

fun get :: "jsval \<Rightarrow> string \<Rightarrow> exn + jsval" where
  "get None p = Inl TypeError"
| "get (Some JNull) p = Inl TypeError"
| "get (Some (JObj kvs)) p = Inr (map_of kvs p)"
| "get (Some v) p = Inr None"

text \<open>\<^verbatim>\<open>v?.p\<close>: \<^verbatim>\<open>undefined\<close> when \<open>v\<close> is \<^verbatim>\<open>undefined\<close> or \<^verbatim>\<open>null\<close>.\<close>

fun opt_get :: "jsval \<Rightarrow> string \<Rightarrow> exn + jsval" where
  "opt_get None p = Inr None"
| "opt_get (Some JNull) p = Inr None"
| "opt_get v p = get v p"

text \<open>
  \<^verbatim>\<open>v?.slice(0, 5)\<close>: arrays and strings have \<^verbatim>\<open>slice\<close>; on any other value the
  property is missing or is not a function, and the call throws a TypeError. (For a
  string the model cuts after five characters of its representation.)
\<close>

fun opt_slice5 :: "jsval \<Rightarrow> exn + jsval" where
  "opt_slice5 None = Inr None"
| "opt_slice5 (Some JNull) = Inr None"
| "opt_slice5 (Some (JArr xs)) = Inr (Some (JArr (take 5 xs)))"
| "opt_slice5 (Some (JStr s)) = Inr (Some (JStr (take 5 s)))"
| "opt_slice5 (Some v) = Inl TypeError"

text \<open>
  \<^verbatim>\<open>v === s\<close> for a string \<open>s\<close>: strict equality converts nothing, so only the string
  \<open>s\<close> itself is equal to \<open>s\<close>.
\<close>

definition strict_eq_str :: "jsval \<Rightarrow> string \<Rightarrow> bool" where
  "strict_eq_str v s = (v = Some (JStr s))"

text \<open>
  \<^verbatim>\<open>xs.find(r => r.id === id)\<close>: the first element whose \<^verbatim>\<open>id\<close> is the string \<open>rid\<close>,
  \<^verbatim>\<open>undefined\<close> when there is none; the callback throws on a \<^verbatim>\<open>null\<close> element.
\<close>

fun find_by_id :: "json list \<Rightarrow> string \<Rightarrow> exn + jsval" where
  "find_by_id [] rid = Inr None"
| "find_by_id (r # rs) rid =
     (case get (Some r) ''id'' of
        Inl e \<Rightarrow> Inl e
      | Inr v \<Rightarrow> if strict_eq_str v rid then Inr (Some r) else find_by_id rs rid)"

text \<open>\<^verbatim>\<open>v?.find(r => r.id === id)\<close>: only an array has \<^verbatim>\<open>find\<close>.\<close>

fun opt_find :: "jsval \<Rightarrow> string \<Rightarrow> exn + jsval" where
  "opt_find None rid = Inr None"
| "opt_find (Some JNull) rid = Inr None"
| "opt_find (Some (JArr xs)) rid = find_by_id xs rid"
| "opt_find (Some v) rid = Inl TypeError"

text \<open>
  \<^verbatim>\<open>JSON.stringify\<close> of an object literal whose property values are parsed JSON or
  \<^verbatim>\<open>undefined\<close>: a property whose value is \<^verbatim>\<open>undefined\<close> is left out. The result is
  kept as the document the text denotes.
\<close>

definition JSON_stringify :: "(string \<times> jsval) list \<Rightarrow> json" where
  "JSON_stringify props = JObj (List.map_filter (\<lambda>(k, v). map_option (Pair k) v) props)"

text \<open>\<^verbatim>\<open>s.replace(pat, rep)\<close> with a string pattern: the first occurrence only.\<close>

fun replace :: "string \<Rightarrow> string \<Rightarrow> string \<Rightarrow> string" where
  "replace pat rep [] = (if pat = [] then rep else [])"
| "replace pat rep (c # cs) =
     (if prefix pat (c # cs) then rep @ drop (length pat) (c # cs)
      else c # replace pat rep cs)"

text \<open>
  \<^verbatim>\<open>encodeURIComponent\<close> on the UTF-8 bytes of a well-formed string: letters, digits and
  \<^verbatim>\<open>- _ . ! ~ * ' ( )\<close> stay, every other byte becomes \<^verbatim>\<open>%XX\<close> in upper-case hex.
\<close>

definition uri_unreserved :: "char \<Rightarrow> bool" where
  "uri_unreserved c =
     (c \<in> set ''ABCDEFGHIJKLMNOPQRSTUVWXYZabcdefghijklmnopqrstuvwxyz0123456789-_.!~*()''
      \<or> c = CHR 0x27)"

definition hex_digit :: "nat \<Rightarrow> char" where
  "hex_digit n = ''0123456789ABCDEF'' ! (n mod 16)"

definition percent_encode :: "char \<Rightarrow> string" where
  "percent_encode c =
     [CHR ''%'', hex_digit ((of_char c :: nat) div 16), hex_digit ((of_char c :: nat) mod 16)]"

definition encodeURIComponent :: "string \<Rightarrow> string" where
  "encodeURIComponent s =
     concat (map (\<lambda>c. if uri_unreserved c then [c] else percent_encode c) s)"

section \<open>Outbound calls\<close>

text \<open>
  One call of \<^verbatim>\<open>fetch\<close>: the URL text and the options given (\<^verbatim>\<open>fetch(url)\<close> alone is
  a GET with no header and no body). The body is the document \<^verbatim>\<open>JSON.stringify\<close> wrote.
  The dynamic import of \<^verbatim>\<open>node-fetch\<close> that precedes the calls is taken to succeed.
\<close>

record fetch_call =
  call_method :: string
  call_url :: string
  call_headers :: "(string \<times> string) list"
  call_body :: "json option"

definition GET :: "string \<Rightarrow> fetch_call" where
  "GET u = \<lparr>call_method = ''GET'', call_url = u, call_headers = [], call_body = None\<rparr>"

definition POST :: "string \<Rightarrow> (string \<times> string) list \<Rightarrow> json \<Rightarrow> fetch_call" where
  "POST u hs b = \<lparr>call_method = ''POST'', call_url = u, call_headers = hs, call_body = Some b\<rparr>"

text \<open>
  What the network does with a call: it fails (\<^verbatim>\<open>fetch\<close> rejects), or a response
  arrives with a status and a body; the body is \<open>None\<close> when it is not JSON, so that
  \<^verbatim>\<open>response.json()\<close> rejects. \<^verbatim>\<open>fetch\<close> does not reject on a status outside 2xx.
  Within one request of the dashboard every call differs from the others, so a
  function of the call describes any behaviour of the backends.
\<close>

datatype upstream = NetworkFailure | Answer nat "json option"

type_synonym net = "fetch_call \<Rightarrow> upstream"

text \<open>
  A computation that issues calls and may throw: it extends the list of calls issued
  so far and returns a value or the exception.
\<close>

type_synonym 'a eff = "fetch_call list \<Rightarrow> (exn + 'a) \<times> fetch_call list"

definition ret :: "'a \<Rightarrow> 'a eff" where
  "ret x = (\<lambda>tr. (Inr x, tr))"

definition throw :: "exn \<Rightarrow> 'a eff" where
  "throw e = (\<lambda>tr. (Inl e, tr))"

definition lift :: "exn + 'a \<Rightarrow> 'a eff" where
  "lift r = (\<lambda>tr. (r, tr))"

definition and_then :: "'a eff \<Rightarrow> ('a \<Rightarrow> 'b eff) \<Rightarrow> 'b eff" where
  "and_then m f =
     (\<lambda>tr. case m tr of (Inl e, tr') \<Rightarrow> (Inl e, tr') | (Inr x, tr') \<Rightarrow> f x tr')"

text \<open>
  \<^verbatim>\<open>try { m } catch (err) { h }\<close> where the handler \<open>h\<close> neither throws nor issues a
  call, as every \<^verbatim>\<open>catch\<close> of the program: the result is a value.
\<close>

definition try_catch :: "'a eff \<Rightarrow> (exn \<Rightarrow> 'a) \<Rightarrow> fetch_call list \<Rightarrow> 'a \<times> fetch_call list" where
  "try_catch m h =
     (\<lambda>tr. case m tr of (Inl e, tr') \<Rightarrow> (h e, tr') | (Inr x, tr') \<Rightarrow> (x, tr'))"

text \<open>\<^verbatim>\<open>await fetch(...)\<close>: the call is issued, then the network decides.\<close>

definition fetch :: "net \<Rightarrow> fetch_call \<Rightarrow> (nat \<times> json option) eff" where
  "fetch nw c =
     (\<lambda>tr. (case nw c of NetworkFailure \<Rightarrow> Inl FetchError | Answer st b \<Rightarrow> Inr (st, b),
            tr @ [c]))"

text \<open>\<^verbatim>\<open>response.ok\<close> and \<^verbatim>\<open>await response.json()\<close>.\<close>

definition ok :: "nat \<times> json option \<Rightarrow> bool" where
  "ok r = (200 \<le> fst r \<and> fst r \<le> 299)"

definition json_of :: "nat \<times> json option \<Rightarrow> json eff" where
  "json_of r = (case snd r of None \<Rightarrow> throw SyntaxError | Some d \<Rightarrow> ret d)"

section \<open>Configuration\<close>

record env =
  JWT_SECRET :: "string option"
  AUTH_SERVICE :: "string option"
  REMINDERS_API_SECRET :: "string option"
  SEMINARS_API_SECRET :: "string option"

text \<open>\<^verbatim>\<open>process.env.X || 'default'\<close>: an unset or empty variable gives the default.\<close>

definition env_or :: "string option \<Rightarrow> string \<Rightarrow> string" where
  "env_or v d = (case v of None \<Rightarrow> d | Some s \<Rightarrow> if s = [] then d else s)"

record app =
  name :: string
  url :: string
  apiSecret :: "string option"
  icon :: string
  color :: string

definition reminders_app :: "env \<Rightarrow> app" where
  "reminders_app e =
     \<lparr>name = ''Reminders'', url = ''https://reminders-app.fly.dev'',
      apiSecret = Some (env_or (REMINDERS_API_SECRET e) ''assistant-secret-key''),
      icon = [CHR 0xE2, CHR 0x9C, CHR 0x85], color = ''#007AFF''\<rparr>"

definition classquizzes_app :: app where
  "classquizzes_app =
     \<lparr>name = ''ClassQuizzes'', url = ''https://classquizzes.fly.dev'',
      apiSecret = None,
      icon = [CHR 0xF0, CHR 0x9F, CHR 0x93, CHR 0x9D], color = ''#5856D6''\<rparr>"

definition seminars_app :: "env \<Rightarrow> app" where
  "seminars_app e =
     \<lparr>name = ''Seminars'', url = ''https://seminars-app.fly.dev'',
      apiSecret = Some (env_or (SEMINARS_API_SECRET e) ''seminars-api-secret-for-dashboard''),
      icon = [CHR 0xF0, CHR 0x9F, CHR 0x8E, CHR 0x93], color = ''#FF9500''\<rparr>"



text \<open>
  \<^verbatim>\<open>${APPS.x.apiSecret}\<close> in a template literal, and the same value as a property of
  an object literal.
\<close>

definition secret_text :: "app \<Rightarrow> string" where
  "secret_text a = (case apiSecret a of None \<Rightarrow> ''undefined'' | Some s \<Rightarrow> s)"

definition secret_value :: "app \<Rightarrow> jsval" where
  "secret_value a = map_option JStr (apiSecret a)"

text \<open>A destructuring default, \<^verbatim>\<open>{ p = d }\<close>: it applies to \<^verbatim>\<open>undefined\<close> only.\<close>

definition default_to :: "jsval \<Rightarrow> json \<Rightarrow> json" where
  "default_to v d = (case v of None \<Rightarrow> d | Some x \<Rightarrow> x)"

section \<open>Requests and responses of the dashboard\<close>

text \<open>
  The fields of the Express request that the program reads. \<open>path\<close> and
  \<open>originalUrl\<close> are what the middleware or handler sees; query values and cookies
  are strings. \<open>host\<close> is \<^verbatim>\<open>req.get('host')\<close>, \<open>params_id\<close> is \<^verbatim>\<open>req.params.id\<close>,
  always a string.
\<close>

record request =
  protocol :: string
  host :: "string option"
  originalUrl :: string
  path :: string
  query :: "(string \<times> string) list"
  authorization :: "string option"
  cookies :: "(string \<times> string) list"
  body :: jsval
  params_id :: string

text \<open>
  \<^verbatim>\<open>res.json(x)\<close> is \<open>Json 200 x\<close>, \<^verbatim>\<open>res.status(n).json(x)\<close> is \<open>Json n x\<close>,
  \<^verbatim>\<open>res.redirect(u)\<close> is \<open>Redirect 302 u\<close> (status and Location).
\<close>

datatype response = Json nat json | Redirect nat string

text \<open>A middleware answers, or calls \<^verbatim>\<open>next()\<close> with \<^verbatim>\<open>req.user\<close> and \<^verbatim>\<open>req.token\<close> set.\<close>

datatype auth_result = Reply response | Next jsval string

text \<open>A template literal prints a missing value as \<^verbatim>\<open>undefined\<close>.\<close>

definition text_of :: "string option \<Rightarrow> string" where
  "text_of v = (case v of None \<Rightarrow> ''undefined'' | Some s \<Rightarrow> s)"

subsection \<open>The auth gate, JWT variant\<close>

definition AUTH_SERVICE_jwt :: string where
  "AUTH_SERVICE_jwt = ''https://inacio-auth.fly.dev''"

definition JWT_SECRET_of :: "env \<Rightarrow> string" where
  "JWT_SECRET_of e = env_or (JWT_SECRET e) ''your-secret-key-change-in-production''"

text \<open>
  \<^verbatim>\<open>jwt.verify\<close> belongs to a library: it is a parameter, \<open>Inl\<close> when it throws.
\<close>

text \<open>\<^verbatim>\<open>req.query.token || req.headers.authorization?.replace('Bearer ', '')\<close>\<close>

definition token_jwt :: "request \<Rightarrow> string option" where
  "token_jwt req =
     str_or (map_of (query req) ''token'')
       (map_option (replace ''Bearer '' []) (authorization req))"

definition checkAuth ::
  "env \<Rightarrow> (string \<Rightarrow> string \<Rightarrow> exn + json) \<Rightarrow> request \<Rightarrow> auth_result" where
  "checkAuth e jwt_verify req =
     (let token = token_jwt req
      in if falsy_str token then
           (let currentUrl = protocol req @ ''://'' @ text_of (host req) @ originalUrl req
            in Reply (Redirect 302
                 (AUTH_SERVICE_jwt @ ''/login?returnTo='' @ encodeURIComponent currentUrl)))
         else
           (case jwt_verify (text_of token) (JWT_SECRET_of e) of
              Inr decoded \<Rightarrow> Next (Some decoded) (text_of token)
            | Inl err \<Rightarrow>
                (let currentUrl = protocol req @ ''://'' @ text_of (host req) @ path req
                 in Reply (Redirect 302
                      (AUTH_SERVICE_jwt @ ''/login?returnTo='' @ encodeURIComponent currentUrl)))))"

subsection \<open>The auth gate, cookie variant\<close>

definition AUTH_SERVICE_cookie :: "env \<Rightarrow> string" where
  "AUTH_SERVICE_cookie e = env_or (AUTH_SERVICE e) ''https://inacio-auth.fly.dev''"

definition COOKIE_NAME :: string where
  "COOKIE_NAME = ''auth_session''"

definition verify_call :: "env \<Rightarrow> string \<Rightarrow> fetch_call" where
  "verify_call e token =
     \<lparr>call_method = ''GET'', call_url = AUTH_SERVICE_cookie e @ ''/api/verify'',
      call_headers = [(''Authorization'', ''Bearer '' @ token)], call_body = None\<rparr>"

text \<open>\<^verbatim>\<open>req.cookies[COOKIE_NAME] || req.headers.authorization?.replace('Bearer ', '')\<close>\<close>

definition token_cookie :: "request \<Rightarrow> string option" where
  "token_cookie req =
     str_or (map_of (cookies req) COOKIE_NAME)
       (map_option (replace ''Bearer '' []) (authorization req))"

definition requireAuth ::
  "env \<Rightarrow> net \<Rightarrow> request \<Rightarrow> fetch_call list \<Rightarrow> auth_result \<times> fetch_call list" where
  "requireAuth e nw req =
     (let token = token_cookie req
      in if falsy_str token then
           (\<lambda>tr.
             (if prefix ''/api/'' (path req) then
                Reply (Json 401 (JObj
                  [(''error'', JStr ''Not authenticated''),
                   (''loginUrl'', JStr (AUTH_SERVICE_cookie e @ ''/login?returnTo='' @
                      encodeURIComponent (''https://inacio-dashboard.fly.dev'' @ originalUrl req)))]))
              else
                Reply (Redirect 302 (AUTH_SERVICE_cookie e @ ''/login?returnTo='' @
                  encodeURIComponent (''https://inacio-dashboard.fly.dev'' @ originalUrl req))),
              tr))
         else
           try_catch
             (and_then (fetch nw (verify_call e (text_of token))) (\<lambda>response.
                if \<not> ok response then throw (Error ''Invalid token'')
                else
                  and_then (json_of response) (\<lambda>data.
                  and_then (lift (get (Some data) ''user'')) (\<lambda>user.
                  ret (Next user (text_of token))))))
             (\<lambda>err.
                if prefix ''/api/'' (path req) then
                  Reply (Json 401 (JObj
                    [(''error'', JStr ''Not authenticated''),
                     (''loginUrl'', JStr (AUTH_SERVICE_cookie e @ ''/login''))]))
                else Reply (Redirect 302 (AUTH_SERVICE_cookie e @ ''/login''))))"

subsection \<open>The gate behind its mount point\<close>

text \<open>
  \<^verbatim>\<open>app.use('/api', f)\<close>: Express runs \<open>f\<close> on a request whose URL path is \<^verbatim>\<open>/api\<close> or
  starts with \<^verbatim>\<open>/api/\<close>, and while \<open>f\<close> runs \<^verbatim>\<open>req.path\<close> is the path without the mount
  point (\<^verbatim>\<open>/\<close> when nothing is left); \<^verbatim>\<open>req.originalUrl\<close> keeps the URL as requested.
  Here \<open>path\<close> of the argument is the URL path as requested.
\<close>

definition mounted_at_api :: "request \<Rightarrow> request option" where
  "mounted_at_api req =
     (if path req = ''/api'' then Some (req\<lparr>path := ''/''\<rparr>)
      else if prefix ''/api/'' (path req) then Some (req\<lparr>path := drop 4 (path req)\<rparr>)
      else None)"

text \<open>\<^verbatim>\<open>app.use('/api', requireAuth)\<close> and \<^verbatim>\<open>app.use('/api', checkAuth)\<close>.\<close>

definition api_gate_cookie ::
  "env \<Rightarrow> net \<Rightarrow> request \<Rightarrow> fetch_call list \<Rightarrow> (auth_result \<times> fetch_call list) option" where
  "api_gate_cookie e nw req tr = map_option (\<lambda>req'. requireAuth e nw req' tr) (mounted_at_api req)"

definition api_gate_jwt ::
  "env \<Rightarrow> (string \<Rightarrow> string \<Rightarrow> exn + json) \<Rightarrow> request \<Rightarrow> auth_result option" where
  "api_gate_jwt e jwt_verify req = map_option (checkAuth e jwt_verify) (mounted_at_api req)"

section \<open>Proxy endpoints\<close>

text \<open>
  \<^verbatim>\<open>POST /api/reminders\<close>. Destructuring \<^verbatim>\<open>req.body\<close> throws when it is
  \<^verbatim>\<open>undefined\<close> or \<^verbatim>\<open>null\<close>; the whole body of the handler is inside the \<^verbatim>\<open>try\<close>.
\<close>

definition create_call :: "env \<Rightarrow> jsval \<Rightarrow> json \<Rightarrow> json \<Rightarrow> fetch_call" where
  "create_call e title notes priority =
     POST (url (reminders_app e) @ ''/api/external/reminder'')
       [(''Content-Type'', ''application/json'')]
       (JSON_stringify
          [(''secret'', secret_value (reminders_app e)),
           (''title'', title),
           (''notes'', Some notes),
           (''priority'', Some priority)])"

definition post_api_reminders ::
  "env \<Rightarrow> net \<Rightarrow> request \<Rightarrow> fetch_call list \<Rightarrow> response \<times> fetch_call list" where
  "post_api_reminders e nw req =
     try_catch
       (and_then (lift (get (body req) ''title'')) (\<lambda>title.
        and_then (lift (get (body req) ''notes'')) (\<lambda>notes.
        and_then (lift (get (body req) ''priority'')) (\<lambda>priority.
        and_then (fetch nw (create_call e title (default_to notes (JStr []))
                              (default_to priority (JStr ''normal'')))) (\<lambda>response.
        and_then (json_of response) (\<lambda>data.
        ret (Json 200 data)))))))
       (\<lambda>err. Json 500 (JObj [(''error'', JStr ''Failed to create reminder'')]))"

text \<open>\<^verbatim>\<open>POST /api/reminders/:id/complete\<close>: read the list, then one bulk call.\<close>

definition list_call :: "env \<Rightarrow> fetch_call" where
  "list_call e =
     GET (url (reminders_app e) @ ''/api/external/reminders?secret='' @
          secret_text (reminders_app e))"

definition bulk_call :: "env \<Rightarrow> jsval \<Rightarrow> string \<Rightarrow> fetch_call" where
  "bulk_call e completed rid =
     POST (url (reminders_app e) @ ''/api/external/bulk'')
       [(''Content-Type'', ''application/json'')]
       (JSON_stringify
          [(''secret'', secret_value (reminders_app e)),
           (''action'', Some (JStr (if truthy completed then ''uncomplete'' else ''complete''))),
           (''ids'', Some (JArr [JStr rid]))])"

definition post_api_reminders_id_complete ::
  "env \<Rightarrow> net \<Rightarrow> request \<Rightarrow> fetch_call list \<Rightarrow> response \<times> fetch_call list" where
  "post_api_reminders_id_complete e nw req =
     try_catch
       (and_then (fetch nw (list_call e)) (\<lambda>getRes.
        and_then (json_of getRes) (\<lambda>data.
        and_then (lift (get (Some data) ''reminders'')) (\<lambda>reminders.
        and_then (lift (opt_find reminders (params_id req))) (\<lambda>reminder.
        if \<not> truthy reminder then
          ret (Json 404 (JObj [(''error'', JStr ''Reminder not found'')]))
        else
          and_then (lift (get reminder ''completed'')) (\<lambda>completed.
          and_then (fetch nw (bulk_call e completed (params_id req))) (\<lambda>response.
          and_then (json_of response) (\<lambda>result.
          ret (Json 200 result)))))))))
       (\<lambda>err. Json 500 (JObj [(''error'', JStr ''Failed to update reminder'')]))"

text \<open>
  \<^verbatim>\<open>GET /api/reminders\<close> (cookie variant): the list call with the filters of the
  request appended.
\<close>

definition filtered_list_url :: "env \<Rightarrow> request \<Rightarrow> string" where
  "filtered_list_url e req =
     (let folder = map_of (query req) ''folder'';
          completed = map_of (query req) ''completed'';
          today = map_of (query req) ''today'';
          tag = map_of (query req) ''tag'';
          search = map_of (query req) ''search'';
          u0 = url (reminders_app e) @ ''/api/external/reminders?secret='' @
               secret_text (reminders_app e);
          u1 = (if \<not> falsy_str folder
                then u0 @ ''&folder='' @ encodeURIComponent (text_of folder) else u0);
          u2 = (if completed \<noteq> None then u1 @ ''&completed='' @ text_of completed else u1);
          u3 = (if \<not> falsy_str today then u2 @ ''&today=true'' else u2);
          u4 = (if \<not> falsy_str tag then u3 @ ''&tag='' @ encodeURIComponent (text_of tag) else u3);
          u5 = (if \<not> falsy_str search
                then u4 @ ''&search='' @ encodeURIComponent (text_of search) else u4)
      in u5)"

definition get_api_reminders ::
  "env \<Rightarrow> net \<Rightarrow> request \<Rightarrow> fetch_call list \<Rightarrow> response \<times> fetch_call list" where
  "get_api_reminders e nw req =
     try_catch
       (and_then (fetch nw (GET (filtered_list_url e req))) (\<lambda>response.
        and_then (json_of response) (\<lambda>data.
        ret (Json 200 data))))
       (\<lambda>err. Json 500 (JObj [(''error'', JStr ''Failed to fetch reminders'')]))"

section \<open>The overview\<close>

text \<open>\<^verbatim>\<open>obj.k = v\<close>: an existing property keeps its place, a new one goes last.\<close>

fun assign :: "(string \<times> json) list \<Rightarrow> string \<Rightarrow> json \<Rightarrow> (string \<times> json) list" where
  "assign [] k v = [(k, v)]"
| "assign ((k', v') # kvs) k v =
     (if k' = k then (k, v) # kvs else (k', v') # assign kvs k v)"

definition failed_to_load :: json where
  "failed_to_load = JObj [(''error'', JStr ''Failed to load'')]"

text \<open>The body of the first \<^verbatim>\<open>try\<close>: two calls to Reminders, then the summary.\<close>

definition reminders_today_call :: "env \<Rightarrow> fetch_call" where
  "reminders_today_call e =
     GET (url (reminders_app e) @ ''/api/external/reminders?secret='' @
          secret_text (reminders_app e) @ ''&today=true'')"

definition reminders_stats_call :: "env \<Rightarrow> fetch_call" where
  "reminders_stats_call e =
     GET (url (reminders_app e) @ ''/api/external/stats?secret='' @
          secret_text (reminders_app e))"

definition reminders_summary :: "env \<Rightarrow> net \<Rightarrow> json eff" where
  "reminders_summary e nw =
     and_then (fetch nw (reminders_today_call e)) (\<lambda>remindersRes.
     and_then (json_of remindersRes) (\<lambda>remindersData.
     and_then (fetch nw (reminders_stats_call e)) (\<lambda>statsRes.
     and_then (json_of statsRes) (\<lambda>statsData.
     and_then (lift (get (Some remindersData) ''count'')) (\<lambda>count.
     and_then (lift (get (Some statsData) ''stats'')) (\<lambda>stats.
     and_then (lift (opt_get stats ''total'')) (\<lambda>total.
     and_then (lift (opt_get stats ''incomplete'')) (\<lambda>incomplete.
     and_then (lift (opt_get stats ''overdue'')) (\<lambda>overdue.
     and_then (lift (opt_get stats ''highPriority'')) (\<lambda>highPriority.
     and_then (lift (get (Some remindersData) ''reminders'')) (\<lambda>reminders.
     and_then (lift (opt_slice5 reminders)) (\<lambda>items.
     ret (JObj
       [(''name'', JStr ''Reminders''),
        (''icon'', JStr [CHR 0xE2, CHR 0x9C, CHR 0x85]),
        (''color'', JStr ''#007AFF''),
        (''todayCount'', or_else count (JNum 0)),
        (''total'', or_else total (JNum 0)),
        (''incomplete'', or_else incomplete (JNum 0)),
        (''overdue'', or_else overdue (JNum 0)),
        (''highPriority'', or_else highPriority (JNum 0)),
        (''items'', or_else items (JArr []))])))))))))))))"

text \<open>The body of the second \<^verbatim>\<open>try\<close> (JWT variant): an object literal, no call.\<close>

definition classquizzes_summary :: "json eff" where
  "classquizzes_summary =
     ret (JObj
       [(''name'', JStr ''ClassQuizzes''),
        (''icon'', JStr [CHR 0xF0, CHR 0x9F, CHR 0x93, CHR 0x9D]),
        (''color'', JStr ''#5856D6''),
        (''url'', JStr (url classquizzes_app @ ''/admin''))])"

text \<open>The body of the third \<^verbatim>\<open>try\<close> (JWT variant): two calls to Seminars.\<close>

definition seminars_stats_call :: "env \<Rightarrow> fetch_call" where
  "seminars_stats_call e =
     GET (url (seminars_app e) @ ''/api/external/stats?secret='' @
          secret_text (seminars_app e))"

definition seminars_upcoming_call :: "env \<Rightarrow> fetch_call" where
  "seminars_upcoming_call e =
     GET (url (seminars_app e) @ ''/api/external/upcoming?secret='' @
          secret_text (seminars_app e) @ ''&limit=5'')"

definition seminars_summary :: "env \<Rightarrow> net \<Rightarrow> json eff" where
  "seminars_summary e nw =
     and_then (fetch nw (seminars_stats_call e)) (\<lambda>seminarsStatsRes.
     and_then (json_of seminarsStatsRes) (\<lambda>seminarsStats.
     and_then (fetch nw (seminars_upcoming_call e)) (\<lambda>seminarsUpcomingRes.
     and_then (json_of seminarsUpcomingRes) (\<lambda>seminarsUpcoming.
     and_then (lift (get (Some seminarsStats) ''upcoming_seminars'')) (\<lambda>upcoming_seminars.
     and_then (lift (get (Some seminarsStats) ''total_speakers'')) (\<lambda>total_speakers.
     and_then (lift (get (Some seminarsStats) ''pending_tasks'')) (\<lambda>pending_tasks.
     and_then (lift (get (Some seminarsUpcoming) ''seminars'')) (\<lambda>seminars.
     and_then (lift (opt_slice5 seminars)) (\<lambda>items.
     ret (JObj
       [(''name'', JStr ''Seminars''),
        (''icon'', JStr [CHR 0xF0, CHR 0x9F, CHR 0x8E, CHR 0x93]),
        (''color'', JStr ''#FF9500''),
        (''upcomingCount'', or_else upcoming_seminars (JNum 0)),
        (''totalSpeakers'', or_else total_speakers (JNum 0)),
        (''pendingTasks'', or_else pending_tasks (JNum 0)),
        (''items'', or_else items (JArr []))]))))))))))"

text \<open>
  \<^verbatim>\<open>GET /api/overview\<close>. \<open>now\<close> is what \<^verbatim>\<open>Date.now()\<close> returns in the first statement
  of the handler. Each \<^verbatim>\<open>catch\<close> logs and stores the error marker.
\<close>

definition get_api_overview_jwt ::
  "env \<Rightarrow> net \<Rightarrow> int \<Rightarrow> fetch_call list \<Rightarrow> response \<times> fetch_call list" where
  "get_api_overview_jwt e nw now tr0 =
     (let (reminders, tr1) = try_catch (reminders_summary e nw) (\<lambda>err. failed_to_load) tr0;
          apps1 = assign [] ''reminders'' reminders;
          (classquizzes, tr2) = try_catch classquizzes_summary (\<lambda>err. failed_to_load) tr1;
          apps2 = assign apps1 ''classquizzes'' classquizzes;
          (seminars, tr3) = try_catch (seminars_summary e nw) (\<lambda>err. failed_to_load) tr2;
          apps3 = assign apps2 ''seminars'' seminars
      in (Json 200 (JObj [(''apps'', JObj apps3), (''timestamp'', JNum now)]), tr3))"

definition get_api_overview_cookie ::
  "env \<Rightarrow> net \<Rightarrow> int \<Rightarrow> fetch_call list \<Rightarrow> response \<times> fetch_call list" where
  "get_api_overview_cookie e nw now tr0 =
     (let (reminders, tr1) = try_catch (reminders_summary e nw) (\<lambda>err. failed_to_load) tr0;
          apps1 = assign [] ''reminders'' reminders
      in (Json 200 (JObj [(''apps'', JObj apps1), (''timestamp'', JNum now)]), tr1))"

section \<open>Reading responses and calls\<close>

text \<open>What a client or a backend can observe, for stating the properties below.\<close>

fun status_of :: "response \<Rightarrow> nat" where
  "status_of (Json st b) = st"
| "status_of (Redirect st u) = st"

fun body_of :: "response \<Rightarrow> jsval" where
  "body_of (Json st b) = Some b"
| "body_of (Redirect st u) = None"

text \<open>The own property \<open>p\<close> of a document, \<open>None\<close> when it has none.\<close>

definition property :: "jsval \<Rightarrow> string \<Rightarrow> jsval" where
  "property v p = (case v of Some (JObj kvs) \<Rightarrow> map_of kvs p | _ \<Rightarrow> None)"


text \<open>The slot of backend \<open>k\<close> in an overview response.\<close>

definition slot :: "response \<Rightarrow> string \<Rightarrow> jsval" where
  "slot r k = property (property (body_of r) ''apps'') k"

text \<open>A computation throws: the body of a \<^verbatim>\<open>try\<close> ends in its \<^verbatim>\<open>catch\<close>.\<close>

definition throws :: "'a eff \<Rightarrow> bool" where
  "throws m = isl (fst (m []))"

text \<open>
  An upstream call fails: \<^verbatim>\<open>fetch\<close> rejects, or the body is not JSON and
  \<^verbatim>\<open>response.json()\<close> rejects.
\<close>

definition call_fails :: "net \<Rightarrow> fetch_call \<Rightarrow> bool" where
  "call_fails nw c = (case nw c of NetworkFailure \<Rightarrow> True | Answer st b \<Rightarrow> b = None)"

text \<open>
  The query string of a URL text (what follows the first \<^verbatim>\<open>?\<close>), and the test that
  it begins with \<^verbatim>\<open>secret=<value>\<close>, alone or followed by \<^verbatim>\<open>&\<close>.
\<close>

definition query_of :: "string \<Rightarrow> string" where
  "query_of u = drop 1 (dropWhile (\<lambda>c. c \<noteq> CHR ''?'') u)"

definition secret_in_query :: "string \<Rightarrow> string \<Rightarrow> bool" where
  "secret_in_query u s =
     (let q = query_of u; p = ''secret='' @ s
      in take (length p) q = p \<and>
         (drop (length p) q = [] \<or> take 1 (drop (length p) q) = ''&''))"

text \<open>
  How a backend call carries the shared secret \<open>s\<close>: a GET in the query string, with
  no header and no body; a POST in the \<^verbatim>\<open>secret\<close> property of its JSON body, with
  no query string and the content type as only header.
\<close>

definition carries_secret :: "string \<Rightarrow> fetch_call \<Rightarrow> bool" where
  "carries_secret s c =
     (if call_method c = ''GET'' then
        secret_in_query (call_url c) s \<and> call_headers c = [] \<and> call_body c = None
      else
        call_method c = ''POST'' \<and> CHR ''?'' \<notin> set (call_url c) \<and>
        call_headers c = [(''Content-Type'', ''application/json'')] \<and>
        property (call_body c) ''secret'' = Some (JStr s))"

text \<open>
  The lookup of the toggle can walk the list of a fetched document: the document is not
  \<^verbatim>\<open>null\<close>, and its \<^verbatim>\<open>reminders\<close> is missing, \<^verbatim>\<open>null\<close>, or an array without a
  \<^verbatim>\<open>null\<close> element.
\<close>

definition list_readable :: "json \<Rightarrow> bool" where
  "list_readable d =
     (d \<noteq> JNull \<and>
      (case property (Some d) ''reminders'' of
         None \<Rightarrow> True
       | Some JNull \<Rightarrow> True
       | Some (JArr items) \<Rightarrow> JNull \<notin> set items
       | Some v \<Rightarrow> False))"

text \<open>The same network with every status replaced: \<open>f\<close> maps the status sent.\<close>

definition with_status :: "(nat \<Rightarrow> nat) \<Rightarrow> net \<Rightarrow> net" where
  "with_status f nw c =
     (case nw c of NetworkFailure \<Rightarrow> NetworkFailure | Answer st b \<Rightarrow> Answer (f st) b)"

section \<open>Example inputs\<close>

definition ex_env :: env where
  "ex_env = \<lparr>JWT_SECRET = None, AUTH_SERVICE = None, REMINDERS_API_SECRET = None,
             SEMINARS_API_SECRET = None\<rparr>"

definition ex_req :: request where
  "ex_req = \<lparr>protocol = ''https'', host = Some ''dash.example'', originalUrl = ''/api/overview'',
             path = ''/overview'', query = [], authorization = None, cookies = [],
             body = None, params_id = []\<rparr>"

definition ex_list :: json where
  "ex_list = JObj
     [(''reminders'', JArr
        [JObj [(''id'', JStr ''a''), (''title'', JStr ''Buy milk''), (''completed'', JBool False)],
         JObj [(''id'', JStr ''b''), (''title'', JStr ''Call home''), (''completed'', JBool True)],
         JObj [(''id'', JNum 7), (''title'', JStr ''Pay rent''), (''completed'', JBool False)]]),
      (''count'', JNum 3)]"

text \<open>Reminders answers every call: the list to a GET, an acknowledgement to a POST.\<close>

definition ex_net_up :: net where
  "ex_net_up c =
     (if call_method c = ''GET'' then Answer 200 (Some ex_list)
      else Answer 200 (Some (JObj [(''success'', JBool True)])))"

text \<open>Reminders answers with a list whose first element is \<^verbatim>\<open>null\<close>.\<close>

definition ex_net_null_first :: net where
  "ex_net_null_first c =
     Answer 200 (Some (JObj [(''reminders'',
       JArr [JNull, JObj [(''id'', JStr ''a''), (''completed'', JBool False)]])]))"

text \<open>Reminders answers with a list that holds \<^verbatim>\<open>null\<close> alone.\<close>

definition ex_net_only_null :: net where
  "ex_net_only_null c = Answer 200 (Some (JObj [(''reminders'', JArr [JNull])]))"

text \<open>Reminders answers with \<^verbatim>\<open>null\<close> and an item whose id is the number 7.\<close>

definition ex_net_null_and_7 :: net where
  "ex_net_null_and_7 c =
     Answer 200 (Some (JObj [(''reminders'',
       JArr [JNull, JObj [(''id'', JNum 7), (''completed'', JBool False)]])]))"

text \<open>The request \<^verbatim>\<open>GET /api/overview\<close> as it arrives, without credential.\<close>

definition ex_get_api_overview :: request where
  "ex_get_api_overview =
     \<lparr>protocol = ''https'', host = Some ''dash.example'', originalUrl = ''/api/overview'',
      path = ''/api/overview'', query = [], authorization = None, cookies = [],
      body = None, params_id = []\<rparr>"

text \<open>No backend is reachable.\<close>

definition ex_net_down :: net where
  "ex_net_down c = NetworkFailure"

text \<open>Every backend answers 503 with a JSON error document.\<close>

definition ex_net_503 :: net where
  "ex_net_503 c = Answer 503 (Some (JObj [(''error'', JStr ''backend down'')]))"



text \<open>A token verifier that rejects every token, and an identity provider that does.\<close>

definition ex_verify_reject :: "string \<Rightarrow> string \<Rightarrow> exn + json" where
  "ex_verify_reject t s = Inl JsonWebTokenError"

definition ex_net_reject :: net where
  "ex_net_reject c = Answer 401 (Some (JObj [(''error'', JStr ''Invalid token'')]))"

section \<open>Toggle completion\<close>

lemmas eff_defs = try_catch_def and_then_def fetch_def json_of_def ret_def lift_def throw_def

lemma get_property:
  "get (Some r) p = (if r = JNull then Inl TypeError else Inr (property (Some r) p))"
  by (cases r) (simp_all add: property_def)

lemma property_Some_obj: "property (Some r) p = Some v \<Longrightarrow> \<exists>kvs. r = JObj kvs"
  by (cases r) (simp_all add: property_def)

text \<open>
  The lookup on a list where nothing has the id: it ends with nothing, unless it meets
  a \<^verbatim>\<open>null\<close> element, on which the callback throws.
\<close>

lemma find_by_id_no_match:
  "\<forall>r\<in>set items. property (Some r) ''id'' \<noteq> Some (JStr rid) \<Longrightarrow>
   find_by_id items rid = (if JNull \<in> set items then Inl TypeError else Inr None)"
  by (induction items) (auto simp add: get_property strict_eq_str_def)

text \<open>The lookup on a list whose first item with the id is \<open>r\<close>.\<close>

lemma find_by_id_match:
  "\<forall>x\<in>set pre. property (Some x) ''id'' \<noteq> Some (JStr rid) \<Longrightarrow>
   property (Some r) ''id'' = Some (JStr rid) \<Longrightarrow>
   find_by_id (pre @ r # post) rid =
     (if JNull \<in> set pre then Inl TypeError else Inr (Some r))"
proof (induction pre)
  case Nil
  then obtain kvs where "r = JObj kvs" using property_Some_obj by blast
  with Nil show ?case by (simp add: strict_eq_str_def property_def)
next
  case (Cons x xs)
  then show ?case by (auto simp add: get_property strict_eq_str_def)
qed

lemma find_by_id_sound:
  "find_by_id items rid = Inr (Some r) \<Longrightarrow>
   r \<in> set items \<and> property (Some r) ''id'' = Some (JStr rid)"
  by (induction items)
    (auto simp add: get_property strict_eq_str_def split: sum.splits if_splits)

lemma toggle_run_not_found:
  "nw (list_call e) = Answer st (Some d) \<Longrightarrow> get (Some d) ''reminders'' = Inr rs \<Longrightarrow>
   opt_find rs (params_id req) = Inr None \<Longrightarrow>
   post_api_reminders_id_complete e nw req tr =
     (Json 404 (JObj [(''error'', JStr ''Reminder not found'')]), tr @ [list_call e])"
  by (simp add: post_api_reminders_id_complete_def eff_defs)

lemma toggle_run_throws:
  "nw (list_call e) = Answer st (Some d) \<Longrightarrow> get (Some d) ''reminders'' = Inr rs \<Longrightarrow>
   opt_find rs (params_id req) = Inl x \<Longrightarrow>
   post_api_reminders_id_complete e nw req tr =
     (Json 500 (JObj [(''error'', JStr ''Failed to update reminder'')]), tr @ [list_call e])"
  by (simp add: post_api_reminders_id_complete_def eff_defs)

lemma toggle_run_found:
  assumes "nw (list_call e) = Answer st (Some d)" and "get (Some d) ''reminders'' = Inr rs"
    and "opt_find rs (params_id req) = Inr (Some (JObj kvs))"
    and "get (Some (JObj kvs)) ''completed'' = Inr c"
  shows "snd (post_api_reminders_id_complete e nw req tr) =
     tr @ [list_call e, bulk_call e c (params_id req)]"
  using assms
  by (simp add: post_api_reminders_id_complete_def eff_defs split: upstream.splits option.splits)

lemma bulk_call_eq:
  "bulk_call e (Some (JBool c)) rid =
     \<lparr>call_method = ''POST'', call_url = ''https://reminders-app.fly.dev/api/external/bulk'',
      call_headers = [(''Content-Type'', ''application/json'')],
      call_body = Some (JObj
        [(''secret'', JStr (env_or (REMINDERS_API_SECRET e) ''assistant-secret-key'')),
         (''action'', JStr (if c then ''uncomplete'' else ''complete'')),
         (''ids'', JArr [JStr rid])])\<rparr>"
  by (simp add: bulk_call_def POST_def JSON_stringify_def reminders_app_def secret_value_def)

lemma reminders_array:
  "property (Some d) ''reminders'' = Some (JArr items) \<Longrightarrow>
   get (Some d) ''reminders'' = Inr (Some (JArr items))"
  by (cases d) (simp_all add: property_def)

text \<open>
  Claim C3, as the code has it. The fetched list holds an item whose \<^verbatim>\<open>id\<close> is the path
  parameter: \<open>r\<close> is the first such item, the elements before it (\<open>pre\<close>) do not have
  the id. When none of these is \<^verbatim>\<open>null\<close>, the handler issues the list call and one
  bulk call, whose \<^verbatim>\<open>action\<close> is \<^verbatim>\<open>complete\<close> when \<open>r\<close> has \<^verbatim>\<open>completed = false\<close> and
  \<^verbatim>\<open>uncomplete\<close> when it has \<^verbatim>\<open>completed = true\<close>, and whose \<^verbatim>\<open>ids\<close> is the
  one-element list of the path parameter. When one of them is \<^verbatim>\<open>null\<close>, the lookup
  throws on it: the answer is 500 and no bulk call is issued.
\<close>

theorem toggle_bulk_action:
  assumes "nw (list_call e) = Answer st (Some d)"
    and "property (Some d) ''reminders'' = Some (JArr (pre @ r # post))"
    and "\<forall>x\<in>set pre. property (Some x) ''id'' \<noteq> Some (JStr (params_id req))"
    and "property (Some r) ''id'' = Some (JStr (params_id req))"
    and "property (Some r) ''completed'' = Some (JBool c)"
  shows "(JNull \<notin> set pre \<longrightarrow>
      snd (post_api_reminders_id_complete e nw req tr) =
        tr @ [list_call e,
          \<lparr>call_method = ''POST'',
           call_url = ''https://reminders-app.fly.dev/api/external/bulk'',
           call_headers = [(''Content-Type'', ''application/json'')],
           call_body = Some (JObj
             [(''secret'', JStr (env_or (REMINDERS_API_SECRET e) ''assistant-secret-key'')),
              (''action'', JStr (if c then ''uncomplete'' else ''complete'')),
              (''ids'', JArr [JStr (params_id req)])])\<rparr>])
    \<and> (JNull \<in> set pre \<longrightarrow>
      post_api_reminders_id_complete e nw req tr =
        (Json 500 (JObj [(''error'', JStr ''Failed to update reminder'')]), tr @ [list_call e]))"
proof -
  obtain ps where r: "r = JObj ps"
    using assms(4) property_Some_obj by blast
  have list: "get (Some d) ''reminders'' = Inr (Some (JArr (pre @ r # post)))"
    using assms(2) by (rule reminders_array)
  have find: "opt_find (Some (JArr (pre @ r # post))) (params_id req) =
      (if JNull \<in> set pre then Inl TypeError else Inr (Some (JObj ps)))"
    using find_by_id_match [OF assms(3) assms(4), of post] r by simp
  have completed: "get (Some (JObj ps)) ''completed'' = Inr (Some (JBool c))"
    using assms(5) r by (simp add: property_def)
  show ?thesis
  proof (intro conjI impI)
    assume "JNull \<notin> set pre"
    then have "opt_find (Some (JArr (pre @ r # post))) (params_id req) = Inr (Some (JObj ps))"
      using find by simp
    from toggle_run_found [where nw = nw and e = e, OF assms(1) list this completed]
    show "snd (post_api_reminders_id_complete e nw req tr) =
        tr @ [list_call e,
          \<lparr>call_method = ''POST'',
           call_url = ''https://reminders-app.fly.dev/api/external/bulk'',
           call_headers = [(''Content-Type'', ''application/json'')],
           call_body = Some (JObj
             [(''secret'', JStr (env_or (REMINDERS_API_SECRET e) ''assistant-secret-key'')),
              (''action'', JStr (if c then ''uncomplete'' else ''complete'')),
              (''ids'', JArr [JStr (params_id req)])])\<rparr>]"
      by (simp add: bulk_call_eq)
  next
    assume "JNull \<in> set pre"
    then have "opt_find (Some (JArr (pre @ r # post))) (params_id req) = Inl TypeError"
      using find by simp
    from toggle_run_throws [where nw = nw and e = e, OF assms(1) list this]
    show "post_api_reminders_id_complete e nw req tr =
        (Json 500 (JObj [(''error'', JStr ''Failed to update reminder'')]), tr @ [list_call e])"
      by simp
  qed
qed

theorem toggle_bulk_action_witness:
  "snd (post_api_reminders_id_complete ex_env ex_net_up (ex_req\<lparr>params_id := ''b''\<rparr>) []) =
     [list_call ex_env,
      \<lparr>call_method = ''POST'', call_url = ''https://reminders-app.fly.dev/api/external/bulk'',
       call_headers = [(''Content-Type'', ''application/json'')],
       call_body = Some (JObj
         [(''secret'', JStr ''assistant-secret-key''),
          (''action'', JStr ''uncomplete''),
          (''ids'', JArr [JStr ''b''])])\<rparr>]
   \<and> snd (post_api_reminders_id_complete ex_env ex_net_up (ex_req\<lparr>params_id := ''a''\<rparr>) []) =
     [list_call ex_env,
      \<lparr>call_method = ''POST'', call_url = ''https://reminders-app.fly.dev/api/external/bulk'',
       call_headers = [(''Content-Type'', ''application/json'')],
       call_body = Some (JObj
         [(''secret'', JStr ''assistant-secret-key''),
          (''action'', JStr ''complete''),
          (''ids'', JArr [JStr ''a''])])\<rparr>]"
  using toggle_bulk_action [of ex_net_up ex_env 200 ex_list
      "[JObj [(''id'', JStr ''a''), (''title'', JStr ''Buy milk''), (''completed'', JBool False)]]"
      "JObj [(''id'', JStr ''b''), (''title'', JStr ''Call home''), (''completed'', JBool True)]"
      "[JObj [(''id'', JNum 7), (''title'', JStr ''Pay rent''), (''completed'', JBool False)]]"
      "ex_req\<lparr>params_id := ''b''\<rparr>" True "[]"]
    toggle_bulk_action [of ex_net_up ex_env 200 ex_list "[]"
      "JObj [(''id'', JStr ''a''), (''title'', JStr ''Buy milk''), (''completed'', JBool False)]"
      "[JObj [(''id'', JStr ''b''), (''title'', JStr ''Call home''), (''completed'', JBool True)],
        JObj [(''id'', JNum 7), (''title'', JStr ''Pay rent''), (''completed'', JBool False)]]"
      "ex_req\<lparr>params_id := ''a''\<rparr>" False "[]"]
  by (simp add: ex_net_up_def ex_env_def ex_list_def list_call_def GET_def env_or_def
      property_def)

text \<open>
  The claim as written fails on a list with a \<^verbatim>\<open>null\<close> element before the item: the
  list holds an item with the id \<^verbatim>\<open>a\<close> and \<^verbatim>\<open>completed = false\<close>, the answer is 500
  and the only call is the GET of the list.
\<close>

theorem toggle_bulk_action_counterexample:
  "post_api_reminders_id_complete ex_env ex_net_null_first (ex_req\<lparr>params_id := ''a''\<rparr>) [] =
     (Json 500 (JObj [(''error'', JStr ''Failed to update reminder'')]),
      [GET ''https://reminders-app.fly.dev/api/external/reminders?secret=assistant-secret-key''])
   \<and> ex_net_null_first
        (GET ''https://reminders-app.fly.dev/api/external/reminders?secret=assistant-secret-key'') =
      Answer 200 (Some (JObj [(''reminders'',
        JArr [JNull, JObj [(''id'', JStr ''a''), (''completed'', JBool False)]])]))"
  by (simp add: post_api_reminders_id_complete_def eff_defs ex_net_null_first_def ex_env_def
      ex_req_def list_call_def GET_def reminders_app_def secret_text_def env_or_def)

text \<open>
  Claim C4, as the code has it. The list is fetched and no item of it has the path
  parameter as its \<^verbatim>\<open>id\<close>. Then no bulk call is issued: the only call is the GET of
  the list. The answer is 404 with \<^verbatim>\<open>{error: "Reminder not found"}\<close> when the lookup
  can walk the list (the document is not \<^verbatim>\<open>null\<close> and its \<^verbatim>\<open>reminders\<close> is missing,
  \<^verbatim>\<open>null\<close>, or an array without a \<^verbatim>\<open>null\<close> element); otherwise the lookup throws and
  the answer is 500.
\<close>

theorem toggle_unknown_id:
  assumes "nw (list_call e) = Answer st (Some d)"
    and "\<forall>items. property (Some d) ''reminders'' = Some (JArr items) \<longrightarrow>
           (\<forall>r\<in>set items. property (Some r) ''id'' \<noteq> Some (JStr (params_id req)))"
  shows "post_api_reminders_id_complete e nw req tr =
      (if list_readable d
       then Json 404 (JObj [(''error'', JStr ''Reminder not found'')])
       else Json 500 (JObj [(''error'', JStr ''Failed to update reminder'')]),
       tr @ [list_call e])
    \<and> call_method (list_call e) = ''GET''"
proof -
  have is_get: "call_method (list_call e) = ''GET''"
    by (simp add: list_call_def GET_def)
  have run: "post_api_reminders_id_complete e nw req tr =
      (if list_readable d
       then Json 404 (JObj [(''error'', JStr ''Reminder not found'')])
       else Json 500 (JObj [(''error'', JStr ''Failed to update reminder'')]),
       tr @ [list_call e])"
  proof (cases "d = JNull")
    case True
    with assms(1) show ?thesis
      by (simp add: post_api_reminders_id_complete_def eff_defs list_readable_def)
  next
    case False
    then have list: "get (Some d) ''reminders'' = Inr (property (Some d) ''reminders'')"
      by (simp add: get_property)
    show ?thesis
    proof (cases "property (Some d) ''reminders''")
      case None
      then have "opt_find (property (Some d) ''reminders'') (params_id req) = Inr None"
        by simp
      from toggle_run_not_found [where nw = nw and e = e, OF assms(1) list this]
      show ?thesis using None False by (simp add: list_readable_def)
    next
      case (Some v)
      show ?thesis
      proof (cases v)
        case JNull
        then have "opt_find (property (Some d) ''reminders'') (params_id req) = Inr None"
          using Some by simp
        from toggle_run_not_found [where nw = nw and e = e, OF assms(1) list this]
        show ?thesis using Some JNull False by (simp add: list_readable_def)
      next
        case (JArr items)
        then have nomatch: "\<forall>r\<in>set items. property (Some r) ''id'' \<noteq> Some (JStr (params_id req))"
          using assms(2) Some by simp
        show ?thesis
        proof (cases "JNull \<in> set items")
          case True
          then have "opt_find (property (Some d) ''reminders'') (params_id req) = Inl TypeError"
            using Some JArr find_by_id_no_match [OF nomatch] by simp
          from toggle_run_throws [where nw = nw and e = e, OF assms(1) list this]
          show ?thesis using Some JArr True by (simp add: list_readable_def)
        next
          case no_null: False
          then have "opt_find (property (Some d) ''reminders'') (params_id req) = Inr None"
            using Some JArr find_by_id_no_match [OF nomatch] by simp
          from toggle_run_not_found [where nw = nw and e = e, OF assms(1) list this]
          show ?thesis using Some JArr no_null False by (simp add: list_readable_def)
        qed
      next
        case (JBool b)
        then have "opt_find (property (Some d) ''reminders'') (params_id req) = Inl TypeError"
          using Some by simp
        from toggle_run_throws [where nw = nw and e = e, OF assms(1) list this]
        show ?thesis using Some JBool by (simp add: list_readable_def)
      next
        case (JNum n)
        then have "opt_find (property (Some d) ''reminders'') (params_id req) = Inl TypeError"
          using Some by simp
        from toggle_run_throws [where nw = nw and e = e, OF assms(1) list this]
        show ?thesis using Some JNum by (simp add: list_readable_def)
      next
        case (JStr t)
        then have "opt_find (property (Some d) ''reminders'') (params_id req) = Inl TypeError"
          using Some by simp
        from toggle_run_throws [where nw = nw and e = e, OF assms(1) list this]
        show ?thesis using Some JStr by (simp add: list_readable_def)
      next
        case (JObj kvs)
        then have "opt_find (property (Some d) ''reminders'') (params_id req) = Inl TypeError"
          using Some by simp
        from toggle_run_throws [where nw = nw and e = e, OF assms(1) list this]
        show ?thesis using Some JObj by (simp add: list_readable_def)
      qed
    qed
  qed
  from run is_get show ?thesis by simp
qed

theorem toggle_unknown_id_witness:
  "post_api_reminders_id_complete ex_env ex_net_up (ex_req\<lparr>params_id := ''zzz''\<rparr>) [] =
     (Json 404 (JObj [(''error'', JStr ''Reminder not found'')]), [list_call ex_env])
   \<and> post_api_reminders_id_complete ex_env ex_net_503 (ex_req\<lparr>params_id := ''zzz''\<rparr>) [] =
     (Json 404 (JObj [(''error'', JStr ''Reminder not found'')]), [list_call ex_env])"
  using toggle_unknown_id [of ex_net_up ex_env 200 ex_list "ex_req\<lparr>params_id := ''zzz''\<rparr>" "[]"]
    toggle_unknown_id [of ex_net_503 ex_env 503 "JObj [(''error'', JStr ''backend down'')]"
      "ex_req\<lparr>params_id := ''zzz''\<rparr>" "[]"]
  by (simp add: ex_net_up_def ex_net_503_def ex_env_def ex_list_def list_call_def GET_def
      property_def list_readable_def)

text \<open>
  The claim as written fails on a list with a \<^verbatim>\<open>null\<close> element: no item has the id,
  and the answer is 500, not 404.
\<close>

theorem toggle_unknown_id_counterexample:
  "ex_net_only_null (list_call ex_env) =
     Answer 200 (Some (JObj [(''reminders'', JArr [JNull])]))
   \<and> post_api_reminders_id_complete ex_env ex_net_only_null (ex_req\<lparr>params_id := ''a''\<rparr>) [] =
     (Json 500 (JObj [(''error'', JStr ''Failed to update reminder'')]), [list_call ex_env])"
  by (simp add: post_api_reminders_id_complete_def eff_defs ex_net_only_null_def)

text \<open>
  Claim C10, as the code has it. The item is located by \<^verbatim>\<open>===\<close> against the path
  parameter, a string: whatever item is found has that very string as its \<^verbatim>\<open>id\<close>, so
  an item whose \<^verbatim>\<open>id\<close> is not a string (a number, say) is never the one found. In
  every fetched list where no item has the path parameter itself as \<^verbatim>\<open>id\<close>, however
  many have a number of that value, no bulk call is issued; the answer is 404 when the
  list has no \<^verbatim>\<open>null\<close> element and 500 when it has one.
\<close>

theorem toggle_strict_equality:
  "(find_by_id xs rid = Inr (Some x) \<longrightarrow> property (Some x) ''id'' = Some (JStr rid))
   \<and> (nw (list_call e) = Answer st (Some d) \<and>
        property (Some d) ''reminders'' = Some (JArr items) \<and>
        (\<forall>r\<in>set items. property (Some r) ''id'' \<noteq> Some (JStr (params_id req))) \<longrightarrow>
        post_api_reminders_id_complete e nw req tr =
          (if JNull \<in> set items
           then Json 500 (JObj [(''error'', JStr ''Failed to update reminder'')])
           else Json 404 (JObj [(''error'', JStr ''Reminder not found'')]),
           tr @ [list_call e]))"
proof (intro conjI impI)
  assume "find_by_id xs rid = Inr (Some x)"
  then show "property (Some x) ''id'' = Some (JStr rid)"
    using find_by_id_sound by blast
next
  assume a: "nw (list_call e) = Answer st (Some d) \<and>
      property (Some d) ''reminders'' = Some (JArr items) \<and>
      (\<forall>r\<in>set items. property (Some r) ''id'' \<noteq> Some (JStr (params_id req)))"
  then have list: "get (Some d) ''reminders'' = Inr (Some (JArr items))"
    by (simp add: reminders_array)
  have find: "opt_find (Some (JArr items)) (params_id req) =
      (if JNull \<in> set items then Inl TypeError else Inr None)"
    using a find_by_id_no_match [of items "params_id req"] by simp
  show "post_api_reminders_id_complete e nw req tr =
      (if JNull \<in> set items
       then Json 500 (JObj [(''error'', JStr ''Failed to update reminder'')])
       else Json 404 (JObj [(''error'', JStr ''Reminder not found'')]),
       tr @ [list_call e])"
  proof (cases "JNull \<in> set items")
    case True
    then have "opt_find (Some (JArr items)) (params_id req) = Inl TypeError"
      using find by simp
    from toggle_run_throws [where nw = nw and e = e and st = st and d = d, OF _ list this] a True
    show ?thesis by simp
  next
    case False
    then have "opt_find (Some (JArr items)) (params_id req) = Inr None"
      using find by simp
    from toggle_run_not_found [where nw = nw and e = e and st = st and d = d, OF _ list this]
      a False
    show ?thesis by simp
  qed
qed

theorem toggle_strict_equality_witness:
  "find_by_id
     [JObj [(''id'', JNum 7), (''title'', JStr ''Pay rent'')],
      JObj [(''id'', JStr ''7''), (''title'', JStr ''Call home'')]] ''7'' =
     Inr (Some (JObj [(''id'', JStr ''7''), (''title'', JStr ''Call home'')]))
   \<and> property (Some (JObj [(''id'', JStr ''7''), (''title'', JStr ''Call home'')])) ''id'' =
       Some (JStr ''7'')
   \<and> property (Some (JObj [(''id'', JNum 7), (''title'', JStr ''Pay rent''),
         (''completed'', JBool False)])) ''id'' = Some (JNum 7)
   \<and> post_api_reminders_id_complete ex_env ex_net_up (ex_req\<lparr>params_id := ''7''\<rparr>) [] =
     (Json 404 (JObj [(''error'', JStr ''Reminder not found'')]), [list_call ex_env])"
proof -
  have found: "find_by_id
     [JObj [(''id'', JNum 7), (''title'', JStr ''Pay rent'')],
      JObj [(''id'', JStr ''7''), (''title'', JStr ''Call home'')]] ''7'' =
     Inr (Some (JObj [(''id'', JStr ''7''), (''title'', JStr ''Call home'')]))"
    by (simp add: strict_eq_str_def)
  from toggle_strict_equality [of
      "[JObj [(''id'', JNum 7), (''title'', JStr ''Pay rent'')],
        JObj [(''id'', JStr ''7''), (''title'', JStr ''Call home'')]]" "''7''"
      "JObj [(''id'', JStr ''7''), (''title'', JStr ''Call home'')]"
      ex_net_up ex_env 200 ex_list
      "[JObj [(''id'', JStr ''a''), (''title'', JStr ''Buy milk''), (''completed'', JBool False)],
        JObj [(''id'', JStr ''b''), (''title'', JStr ''Call home''), (''completed'', JBool True)],
        JObj [(''id'', JNum 7), (''title'', JStr ''Pay rent''), (''completed'', JBool False)]]"
      "ex_req\<lparr>params_id := ''7''\<rparr>" "[]"] found
  show ?thesis
    by (simp add: ex_net_up_def ex_env_def ex_list_def list_call_def GET_def property_def)
qed

text \<open>
  The claim as written fails on a list with a \<^verbatim>\<open>null\<close> element: the list holds an item
  with the number 7 as id, the path parameter is \<^verbatim>\<open>7\<close>, and the answer is 500, not
  404.
\<close>

theorem toggle_strict_equality_counterexample:
  "ex_net_null_and_7 (list_call ex_env) =
     Answer 200 (Some (JObj [(''reminders'',
       JArr [JNull, JObj [(''id'', JNum 7), (''completed'', JBool False)]])]))
   \<and> post_api_reminders_id_complete ex_env ex_net_null_and_7 (ex_req\<lparr>params_id := ''7''\<rparr>) [] =
     (Json 500 (JObj [(''error'', JStr ''Failed to update reminder'')]), [list_call ex_env])"
  by (simp add: post_api_reminders_id_complete_def eff_defs ex_net_null_and_7_def)

section \<open>Create\<close>

text \<open>
  Claim C5. The body of the request is an object with a \<^verbatim>\<open>title\<close> and neither
  \<^verbatim>\<open>notes\<close> nor \<^verbatim>\<open>priority\<close>. The handler issues exactly one call, a POST whose
  JSON body is \<^verbatim>\<open>{secret, title, notes: "", priority: "normal"}\<close> with the Reminders
  secret; and when the backend answers with a JSON document, whatever the status,
  the dashboard answers with that document.
\<close>

theorem create_title_only:
  assumes "body req = Some (JObj kvs)"
    and "map_of kvs ''title'' = Some t"
    and "map_of kvs ''notes'' = None"
    and "map_of kvs ''priority'' = None"
    and "c = \<lparr>call_method = ''POST'',
              call_url = ''https://reminders-app.fly.dev/api/external/reminder'',
              call_headers = [(''Content-Type'', ''application/json'')],
              call_body = Some (JObj
                [(''secret'', JStr (env_or (REMINDERS_API_SECRET e) ''assistant-secret-key'')),
                 (''title'', t), (''notes'', JStr []), (''priority'', JStr ''normal'')])\<rparr>"
  shows "snd (post_api_reminders e nw req tr) = tr @ [c] \<and>
         (\<forall>st d. nw c = Answer st (Some d) \<longrightarrow> fst (post_api_reminders e nw req tr) = Json 200 d)"
  using assms
  by (simp add: post_api_reminders_def eff_defs create_call_def POST_def JSON_stringify_def reminders_app_def secret_value_def default_to_def
      split: upstream.splits option.splits)

theorem create_title_only_witness:
  "post_api_reminders ex_env ex_net_up (ex_req\<lparr>body := Some (JObj [(''title'', JStr ''Buy milk'')])\<rparr>) [] =
     (Json 200 (JObj [(''success'', JBool True)]),
      [\<lparr>call_method = ''POST'',
        call_url = ''https://reminders-app.fly.dev/api/external/reminder'',
        call_headers = [(''Content-Type'', ''application/json'')],
        call_body = Some (JObj
          [(''secret'', JStr ''assistant-secret-key''),
           (''title'', JStr ''Buy milk''), (''notes'', JStr []), (''priority'', JStr ''normal'')])\<rparr>])"
  using create_title_only [of "ex_req\<lparr>body := Some (JObj [(''title'', JStr ''Buy milk'')])\<rparr>"
      "[(''title'', JStr ''Buy milk'')]" "JStr ''Buy milk''"
      "\<lparr>call_method = ''POST'',
        call_url = ''https://reminders-app.fly.dev/api/external/reminder'',
        call_headers = [(''Content-Type'', ''application/json'')],
        call_body = Some (JObj
          [(''secret'', JStr ''assistant-secret-key''),
           (''title'', JStr ''Buy milk''), (''notes'', JStr []), (''priority'', JStr ''normal'')])\<rparr>"
      ex_env ex_net_up "[]"]
  by (simp add: ex_env_def ex_net_up_def env_or_def prod_eq_iff)

section \<open>The overview: slots and timestamp\<close>

text \<open>
  Claim C9. In the JWT variant the \<^verbatim>\<open>classquizzes\<close> slot of every overview is the fixed
  object with the admin URL, never the error marker: the body of its \<^verbatim>\<open>try\<close> does not
  throw and issues no call, so the result does not depend on the \<^verbatim>\<open>catch\<close>.
\<close>

theorem classquizzes_slot_fixed:
  "slot (fst (get_api_overview_jwt e nw now tr)) ''classquizzes'' =
     Some (JObj [(''name'', JStr ''ClassQuizzes''),
                 (''icon'', JStr [CHR 0xF0, CHR 0x9F, CHR 0x93, CHR 0x9D]),
                 (''color'', JStr ''#5856D6''),
                 (''url'', JStr ''https://classquizzes.fly.dev/admin'')])
   \<and> slot (fst (get_api_overview_jwt e nw now tr)) ''classquizzes'' \<noteq> Some failed_to_load
   \<and> \<not> throws classquizzes_summary
   \<and> try_catch classquizzes_summary h tr' = (fst (try_catch classquizzes_summary h' tr'), tr')"
  by (simp add: get_api_overview_jwt_def slot_def property_def classquizzes_summary_def
      classquizzes_app_def failed_to_load_def throws_def try_catch_def ret_def
      split: prod.splits)

lemma reminders_summary_trace:
  "fst (reminders_summary e nw tr) = fst (reminders_summary e nw [])"
  unfolding reminders_summary_def eff_defs
  by (simp split: upstream.splits option.splits sum.splits prod.splits)

lemma seminars_summary_trace:
  "fst (seminars_summary e nw tr) = fst (seminars_summary e nw [])"
  unfolding seminars_summary_def eff_defs
  by (simp split: upstream.splits option.splits sum.splits prod.splits)

lemma try_catch_slot:
  "fst (try_catch m (\<lambda>err. d) tr) = (case fst (m tr) of Inl err \<Rightarrow> d | Inr v \<Rightarrow> v)"
  by (simp add: try_catch_def split: prod.splits sum.splits)

lemma overview_jwt_body:
  "fst (get_api_overview_jwt e nw now tr) =
     Json 200 (JObj
       [(''apps'', JObj
          [(''reminders'', case fst (reminders_summary e nw []) of Inl err \<Rightarrow> failed_to_load | Inr v \<Rightarrow> v),
           (''classquizzes'', case fst (classquizzes_summary []) of Inl err \<Rightarrow> failed_to_load | Inr v \<Rightarrow> v),
           (''seminars'', case fst (seminars_summary e nw []) of Inl err \<Rightarrow> failed_to_load | Inr v \<Rightarrow> v)]),
        (''timestamp'', JNum now)])"
proof -
  obtain r tr1 where 1: "try_catch (reminders_summary e nw) (\<lambda>err. failed_to_load) tr = (r, tr1)"
    by (cases "try_catch (reminders_summary e nw) (\<lambda>err. failed_to_load) tr")
  obtain c tr2 where 2: "try_catch classquizzes_summary (\<lambda>err. failed_to_load) tr1 = (c, tr2)"
    by (cases "try_catch classquizzes_summary (\<lambda>err. failed_to_load) tr1")
  obtain s tr3 where 3: "try_catch (seminars_summary e nw) (\<lambda>err. failed_to_load) tr2 = (s, tr3)"
    by (cases "try_catch (seminars_summary e nw) (\<lambda>err. failed_to_load) tr2")
  have r: "r = (case fst (reminders_summary e nw []) of Inl err \<Rightarrow> failed_to_load | Inr v \<Rightarrow> v)"
    using try_catch_slot [of "reminders_summary e nw" failed_to_load tr] 1
    by (simp add: reminders_summary_trace [of e nw tr])
  have c: "c = (case fst (classquizzes_summary []) of Inl err \<Rightarrow> failed_to_load | Inr v \<Rightarrow> v)"
    using try_catch_slot [of classquizzes_summary failed_to_load tr1] 2
    by (simp add: classquizzes_summary_def ret_def)
  have s: "s = (case fst (seminars_summary e nw []) of Inl err \<Rightarrow> failed_to_load | Inr v \<Rightarrow> v)"
    using try_catch_slot [of "seminars_summary e nw" failed_to_load tr2] 3
    by (simp add: seminars_summary_trace [of e nw tr2])
  show ?thesis
    unfolding get_api_overview_jwt_def by (simp add: 1 2 3 r c s)
qed

lemma overview_cookie_body:
  "fst (get_api_overview_cookie e nw now tr) =
     Json 200 (JObj
       [(''apps'', JObj
          [(''reminders'', case fst (reminders_summary e nw []) of Inl err \<Rightarrow> failed_to_load | Inr v \<Rightarrow> v)]),
        (''timestamp'', JNum now)])"
proof -
  obtain r tr1 where 1: "try_catch (reminders_summary e nw) (\<lambda>err. failed_to_load) tr = (r, tr1)"
    by (cases "try_catch (reminders_summary e nw) (\<lambda>err. failed_to_load) tr")
  have r: "r = (case fst (reminders_summary e nw []) of Inl err \<Rightarrow> failed_to_load | Inr v \<Rightarrow> v)"
    using try_catch_slot [of "reminders_summary e nw" failed_to_load tr] 1
    by (simp add: reminders_summary_trace [of e nw tr])
  show ?thesis
    unfolding get_api_overview_cookie_def by (simp add: 1 r)
qed












text \<open>
  Claim C8. Whatever the backends do, the overview answers 200 and its
  \<^verbatim>\<open>timestamp\<close> is a number: the reading of the clock taken in the first statement of
  the handler, hence no earlier than any instant \<open>started\<close> that the clock showed
  before (the clock not being set back in between).
\<close>

theorem overview_timestamp:
  assumes "started \<le> now"
  shows "status_of (fst (get_api_overview_jwt e nw now tr)) = 200
    \<and> status_of (fst (get_api_overview_cookie e nw now tr)) = 200
    \<and> (\<exists>t. property (body_of (fst (get_api_overview_jwt e nw now tr))) ''timestamp'' =
            Some (JNum t) \<and> started \<le> t)
    \<and> (\<exists>t. property (body_of (fst (get_api_overview_cookie e nw now tr))) ''timestamp'' =
            Some (JNum t) \<and> started \<le> t)"
  using assms by (simp add: overview_jwt_body overview_cookie_body property_def)

theorem overview_timestamp_witness:
  "status_of (fst (get_api_overview_jwt ex_env ex_net_down 1000 [])) = 200
   \<and> property (body_of (fst (get_api_overview_jwt ex_env ex_net_down 1000 []))) ''timestamp'' =
       Some (JNum 1000)
   \<and> slot (fst (get_api_overview_jwt ex_env ex_net_down 1000 [])) ''reminders'' = Some failed_to_load
   \<and> slot (fst (get_api_overview_jwt ex_env ex_net_down 1000 [])) ''seminars'' = Some failed_to_load"
proof -
  have "(1000::int) \<le> 1000" by simp
  from overview_timestamp [OF this, of ex_env ex_net_down "[]"]
  show ?thesis
    by (simp add: overview_jwt_body slot_def property_def reminders_summary_def
        seminars_summary_def eff_defs ex_net_down_def)
qed

section \<open>The auth gate behind its mount point\<close>

text \<open>
  Claim C2 against the code. The cookie variant means to answer 401 on API paths: both
  branches of \<^verbatim>\<open>requireAuth\<close> test \<^verbatim>\<open>req.path.startsWith('/api/')\<close>. But the gate runs
  under \<^verbatim>\<open>app.use('/api', requireAuth)\<close>, where \<^verbatim>\<open>req.path\<close> has lost the mount point:
  an unauthenticated \<^verbatim>\<open>GET /api/overview\<close> is redirected with 302, with or without a
  credential, and the 401 with its \<^verbatim>\<open>loginUrl\<close> is reached only by a path that repeats
  the prefix. In the JWT variant the \<^verbatim>\<open>returnTo\<close> written after a failed verification
  is built from \<^verbatim>\<open>req.path\<close>: it has lost \<^verbatim>\<open>/api\<close> and is not the requested URL.
\<close>

theorem auth_gate_api_request_redirected:
  "mounted_at_api ex_get_api_overview =
     Some (ex_get_api_overview\<lparr>path := ''/overview''\<rparr>)
   \<and> api_gate_cookie ex_env ex_net_reject ex_get_api_overview [] =
     Some (Reply (Redirect 302
        ''https://inacio-auth.fly.dev/login?returnTo=https%3A%2F%2Finacio-dashboard.fly.dev%2Fapi%2Foverview''),
      [])
   \<and> api_gate_cookie ex_env ex_net_reject
       (ex_get_api_overview\<lparr>cookies := [(''auth_session'', ''stale'')]\<rparr>) [] =
     Some (Reply (Redirect 302 ''https://inacio-auth.fly.dev/login''),
      [verify_call ex_env ''stale''])
   \<and> api_gate_cookie ex_env ex_net_reject
       (ex_get_api_overview\<lparr>path := ''/api/api/overview'',
          originalUrl := ''/api/api/overview''\<rparr>) [] =
     Some (Reply (Json 401 (JObj [(''error'', JStr ''Not authenticated''),
        (''loginUrl'', JStr ''https://inacio-auth.fly.dev/login?returnTo=https%3A%2F%2Finacio-dashboard.fly.dev%2Fapi%2Fapi%2Foverview'')])),
      [])
   \<and> api_gate_jwt ex_env ex_verify_reject
       (ex_get_api_overview\<lparr>query := [(''token'', ''stale'')],
          originalUrl := ''/api/overview?token=stale''\<rparr>) =
     Some (Reply (Redirect 302
        ''https://inacio-auth.fly.dev/login?returnTo=https%3A%2F%2Fdash.example%2Foverview''))"
  by (simp add: api_gate_cookie_def api_gate_jwt_def mounted_at_api_def requireAuth_def
      checkAuth_def Let_def eff_defs ok_def ex_get_api_overview_def ex_env_def
      ex_net_reject_def ex_verify_reject_def token_cookie_def token_jwt_def str_or_def
      falsy_str_def COOKIE_NAME_def AUTH_SERVICE_cookie_def AUTH_SERVICE_jwt_def env_or_def
      encodeURIComponent_def uri_unreserved_def percent_encode_def hex_digit_def text_of_def
      verify_call_def)

section \<open>The shared secret on outbound calls\<close>

lemma query_of_append:
  "CHR ''?'' \<notin> set p \<Longrightarrow> query_of (p @ CHR ''?'' # q) = q"
proof -
  assume "CHR ''?'' \<notin> set p"
  then have "dropWhile (\<lambda>c. c \<noteq> CHR ''?'') p = []"
    by (induction p) auto
  then show ?thesis
    by (simp add: query_of_def dropWhile_append3)
qed

lemma secret_in_query_text:
  assumes "CHR ''?'' \<notin> set p" and "sfx = [] \<or> (\<exists>t. sfx = CHR ''&'' # t)"
  shows "secret_in_query (p @ ''?secret='' @ s @ sfx) s"
proof -
  have "query_of (p @ ''?secret='' @ s @ sfx) = ''secret='' @ s @ sfx"
    using query_of_append [OF assms(1), of "''secret='' @ s @ sfx"] by simp
  with assms(2) show ?thesis
    by (auto simp add: secret_in_query_def)
qed

lemma get_call_carries:
  "CHR ''?'' \<notin> set p \<Longrightarrow> sfx = [] \<or> (\<exists>t. sfx = CHR ''&'' # t) \<Longrightarrow>
   carries_secret s (GET (p @ ''?secret='' @ s @ sfx))"
  using secret_in_query_text [of p sfx s] by (simp add: carries_secret_def GET_def)

lemma secret_text_reminders:
  "secret_text (reminders_app e) = env_or (REMINDERS_API_SECRET e) ''assistant-secret-key''"
  by (simp add: secret_text_def reminders_app_def)

lemma secret_text_seminars:
  "secret_text (seminars_app e) =
     env_or (SEMINARS_API_SECRET e) ''seminars-api-secret-for-dashboard''"
  by (simp add: secret_text_def seminars_app_def)

lemma reminders_today_call_eq:
  "reminders_today_call e =
     GET (''https://reminders-app.fly.dev/api/external/reminders'' @ ''?secret='' @
          env_or (REMINDERS_API_SECRET e) ''assistant-secret-key'' @ ''&today=true'')"
  by (simp add: reminders_today_call_def secret_text_reminders) (simp add: reminders_app_def)

lemma reminders_stats_call_eq:
  "reminders_stats_call e =
     GET (''https://reminders-app.fly.dev/api/external/stats'' @ ''?secret='' @
          env_or (REMINDERS_API_SECRET e) ''assistant-secret-key'' @ [])"
  by (simp add: reminders_stats_call_def secret_text_reminders) (simp add: reminders_app_def)

lemma seminars_stats_call_eq:
  "seminars_stats_call e =
     GET (''https://seminars-app.fly.dev/api/external/stats'' @ ''?secret='' @
          env_or (SEMINARS_API_SECRET e) ''seminars-api-secret-for-dashboard'' @ [])"
  by (simp add: seminars_stats_call_def secret_text_seminars) (simp add: seminars_app_def)

lemma seminars_upcoming_call_eq:
  "seminars_upcoming_call e =
     GET (''https://seminars-app.fly.dev/api/external/upcoming'' @ ''?secret='' @
          env_or (SEMINARS_API_SECRET e) ''seminars-api-secret-for-dashboard'' @ ''&limit=5'')"
  by (simp add: seminars_upcoming_call_def secret_text_seminars) (simp add: seminars_app_def)

lemma list_call_eq:
  "list_call e =
     GET (''https://reminders-app.fly.dev/api/external/reminders'' @ ''?secret='' @
          env_or (REMINDERS_API_SECRET e) ''assistant-secret-key'' @ [])"
  by (simp add: list_call_def secret_text_reminders) (simp add: reminders_app_def)

lemma reminders_today_call_secret:
  "call_method (reminders_today_call e) = ''GET'' \<and>
   prefix ''https://reminders-app.fly.dev/'' (call_url (reminders_today_call e)) \<and>
   carries_secret (env_or (REMINDERS_API_SECRET e) ''assistant-secret-key'')
     (reminders_today_call e)"
  unfolding reminders_today_call_eq
  by (intro conjI get_call_carries) (simp_all add: GET_def)

lemma reminders_stats_call_secret:
  "call_method (reminders_stats_call e) = ''GET'' \<and>
   prefix ''https://reminders-app.fly.dev/'' (call_url (reminders_stats_call e)) \<and>
   carries_secret (env_or (REMINDERS_API_SECRET e) ''assistant-secret-key'')
     (reminders_stats_call e)"
  unfolding reminders_stats_call_eq
  by (intro conjI get_call_carries) (simp_all add: GET_def)

lemma seminars_stats_call_secret:
  "call_method (seminars_stats_call e) = ''GET'' \<and>
   prefix ''https://seminars-app.fly.dev/'' (call_url (seminars_stats_call e)) \<and>
   carries_secret (env_or (SEMINARS_API_SECRET e) ''seminars-api-secret-for-dashboard'')
     (seminars_stats_call e)"
  unfolding seminars_stats_call_eq
  by (intro conjI get_call_carries) (simp_all add: GET_def)

lemma seminars_upcoming_call_secret:
  "call_method (seminars_upcoming_call e) = ''GET'' \<and>
   prefix ''https://seminars-app.fly.dev/'' (call_url (seminars_upcoming_call e)) \<and>
   carries_secret (env_or (SEMINARS_API_SECRET e) ''seminars-api-secret-for-dashboard'')
     (seminars_upcoming_call e)"
  unfolding seminars_upcoming_call_eq
  by (intro conjI get_call_carries) (simp_all add: GET_def)

lemma list_call_secret:
  "call_method (list_call e) = ''GET'' \<and>
   carries_secret (env_or (REMINDERS_API_SECRET e) ''assistant-secret-key'') (list_call e)"
  unfolding list_call_eq
  by (intro conjI get_call_carries) (simp_all add: GET_def)

lemma filtered_list_url_shape:
  "\<exists>sfx. filtered_list_url e req =
      ''https://reminders-app.fly.dev/api/external/reminders'' @ ''?secret='' @
      env_or (REMINDERS_API_SECRET e) ''assistant-secret-key'' @ sfx \<and>
      (sfx = [] \<or> (\<exists>t. sfx = CHR ''&'' # t))"
  by (simp add: filtered_list_url_def Let_def secret_text_reminders) (simp add: reminders_app_def)

lemma filtered_list_call_secret:
  "carries_secret (env_or (REMINDERS_API_SECRET e) ''assistant-secret-key'')
     (GET (filtered_list_url e req))"
proof -
  obtain sfx where u: "filtered_list_url e req =
      ''https://reminders-app.fly.dev/api/external/reminders'' @ ''?secret='' @
      env_or (REMINDERS_API_SECRET e) ''assistant-secret-key'' @ sfx"
    and s: "sfx = [] \<or> (\<exists>t. sfx = CHR ''&'' # t)"
    using filtered_list_url_shape by blast
  show ?thesis
    unfolding u by (rule get_call_carries) (simp_all add: s)
qed

lemma create_call_secret:
  "call_method (create_call e t n p) = ''POST'' \<and>
   carries_secret (env_or (REMINDERS_API_SECRET e) ''assistant-secret-key'') (create_call e t n p)"
  by (cases t)
    (simp_all add: carries_secret_def create_call_def POST_def JSON_stringify_def reminders_app_def secret_value_def property_def)

lemma bulk_call_secret:
  "call_method (bulk_call e c rid) = ''POST'' \<and>
   carries_secret (env_or (REMINDERS_API_SECRET e) ''assistant-secret-key'') (bulk_call e c rid)"
  by (simp add: carries_secret_def bulk_call_def POST_def JSON_stringify_def reminders_app_def secret_value_def property_def)

lemma reminders_summary_calls:
  "set (snd (reminders_summary e nw tr)) \<subseteq>
     set tr \<union> {reminders_today_call e, reminders_stats_call e}"
  unfolding reminders_summary_def eff_defs
  by (auto split: upstream.splits option.splits sum.splits prod.splits)

lemma seminars_summary_calls:
  "set (snd (seminars_summary e nw tr)) \<subseteq>
     set tr \<union> {seminars_stats_call e, seminars_upcoming_call e}"
  unfolding seminars_summary_def eff_defs
  by (auto split: upstream.splits option.splits sum.splits prod.splits)

lemma try_catch_calls: "snd (try_catch m h tr) = snd (m tr)"
  by (simp add: try_catch_def split: prod.splits sum.splits)

lemma overview_jwt_calls:
  "set (snd (get_api_overview_jwt e nw now [])) \<subseteq>
     {reminders_today_call e, reminders_stats_call e, seminars_stats_call e,
      seminars_upcoming_call e}"
proof -
  obtain r tr1 where 1: "try_catch (reminders_summary e nw) (\<lambda>err. failed_to_load) [] = (r, tr1)"
    by (cases "try_catch (reminders_summary e nw) (\<lambda>err. failed_to_load) []")
  obtain c tr2 where 2: "try_catch classquizzes_summary (\<lambda>err. failed_to_load) tr1 = (c, tr2)"
    by (cases "try_catch classquizzes_summary (\<lambda>err. failed_to_load) tr1")
  obtain s tr3 where 3: "try_catch (seminars_summary e nw) (\<lambda>err. failed_to_load) tr2 = (s, tr3)"
    by (cases "try_catch (seminars_summary e nw) (\<lambda>err. failed_to_load) tr2")
  have a: "set tr1 \<subseteq> {reminders_today_call e, reminders_stats_call e}"
    using reminders_summary_calls [of e nw "[]"]
      try_catch_calls [of "reminders_summary e nw" "\<lambda>err. failed_to_load" "[]"] 1
    by simp
  have b: "tr2 = tr1"
    using 2 by (simp add: try_catch_def classquizzes_summary_def ret_def)
  have c: "set tr3 \<subseteq> set tr2 \<union> {seminars_stats_call e, seminars_upcoming_call e}"
    using seminars_summary_calls [of e nw tr2]
      try_catch_calls [of "seminars_summary e nw" "\<lambda>err. failed_to_load" tr2] 3
    by simp
  have "snd (get_api_overview_jwt e nw now []) = tr3"
    unfolding get_api_overview_jwt_def by (simp add: 1 2 3)
  with a b c show ?thesis by auto
qed

lemma overview_cookie_calls:
  "set (snd (get_api_overview_cookie e nw now [])) \<subseteq>
     {reminders_today_call e, reminders_stats_call e}"
proof -
  obtain r tr1 where 1: "try_catch (reminders_summary e nw) (\<lambda>err. failed_to_load) [] = (r, tr1)"
    by (cases "try_catch (reminders_summary e nw) (\<lambda>err. failed_to_load) []")
  have a: "set tr1 \<subseteq> {reminders_today_call e, reminders_stats_call e}"
    using reminders_summary_calls [of e nw "[]"]
      try_catch_calls [of "reminders_summary e nw" "\<lambda>err. failed_to_load" "[]"] 1
    by simp
  have "snd (get_api_overview_cookie e nw now []) = tr1"
    unfolding get_api_overview_cookie_def by (simp add: 1)
  with a show ?thesis by auto
qed

lemma get_api_reminders_calls:
  "snd (get_api_reminders e nw req []) = [GET (filtered_list_url e req)]"
  by (simp add: get_api_reminders_def eff_defs split: upstream.splits option.splits)

lemma post_api_reminders_calls:
  "set (snd (post_api_reminders e nw req [])) \<subseteq>
     {c. \<exists>t n p. c = create_call e t n p}"
  by (auto simp add: post_api_reminders_def eff_defs
      split: upstream.splits option.splits sum.splits)

lemma post_api_reminders_id_complete_calls:
  "set (snd (post_api_reminders_id_complete e nw req [])) \<subseteq>
     insert (list_call e) {c. \<exists>d. c = bulk_call e d (params_id req)}"
  by (auto simp add: post_api_reminders_id_complete_def eff_defs
      split: upstream.splits option.splits sum.splits)


text \<open>
  Claim C6, as the code has it. Every call that a handler issues to a backend carries
  that backend's shared secret, never as a header. The GET calls (the overview
  fetches, the list fetch of the toggle, the filtered list of the cookie variant)
  carry it in the URL: the query string begins with \<^verbatim>\<open>secret=<value>\<close>. The POST calls
  (creation, bulk) carry it as the \<^verbatim>\<open>secret\<close> property of the JSON body; their URL
  has no query string.
\<close>

theorem backend_calls_carry_secret:
  assumes "rs = env_or (REMINDERS_API_SECRET e) ''assistant-secret-key''"
    and "ss = env_or (SEMINARS_API_SECRET e) ''seminars-api-secret-for-dashboard''"
  shows "(\<forall>c\<in>set (snd (get_api_overview_jwt e nw now [])). call_method c = ''GET'' \<and>
            (prefix ''https://reminders-app.fly.dev/'' (call_url c) \<and> carries_secret rs c \<or>
             prefix ''https://seminars-app.fly.dev/'' (call_url c) \<and> carries_secret ss c))
    \<and> (\<forall>c\<in>set (snd (get_api_overview_cookie e nw now [])).
            call_method c = ''GET'' \<and> carries_secret rs c)
    \<and> (\<forall>c\<in>set (snd (get_api_reminders e nw req [])).
            call_method c = ''GET'' \<and> carries_secret rs c)
    \<and> (\<forall>c\<in>set (snd (post_api_reminders e nw req [])).
            call_method c = ''POST'' \<and> carries_secret rs c)
    \<and> (\<forall>c\<in>set (snd (post_api_reminders_id_complete e nw req [])).
            (c = list_call e \<and> call_method c = ''GET'' \<or> call_method c = ''POST'') \<and>
            carries_secret rs c)"
proof -
  have 1: "\<forall>c\<in>set (snd (get_api_overview_jwt e nw now [])). call_method c = ''GET'' \<and>
      (prefix ''https://reminders-app.fly.dev/'' (call_url c) \<and> carries_secret rs c \<or>
       prefix ''https://seminars-app.fly.dev/'' (call_url c) \<and> carries_secret ss c)"
    unfolding assms
    using overview_jwt_calls [of e nw now] reminders_today_call_secret [of e]
      reminders_stats_call_secret [of e] seminars_stats_call_secret [of e]
      seminars_upcoming_call_secret [of e]
    by blast
  have 2: "\<forall>c\<in>set (snd (get_api_overview_cookie e nw now [])).
      call_method c = ''GET'' \<and> carries_secret rs c"
    unfolding assms
    using overview_cookie_calls [of e nw now] reminders_today_call_secret [of e]
      reminders_stats_call_secret [of e]
    by blast
  have 3: "\<forall>c\<in>set (snd (get_api_reminders e nw req [])).
      call_method c = ''GET'' \<and> carries_secret rs c"
    unfolding assms
    using filtered_list_call_secret [of e req]
    by (simp add: get_api_reminders_calls) (simp add: GET_def)
  have 4: "\<forall>c\<in>set (snd (post_api_reminders e nw req [])).
      call_method c = ''POST'' \<and> carries_secret rs c"
    unfolding assms
    using post_api_reminders_calls [of e nw req] create_call_secret [of e] by blast
  have 5: "\<forall>c\<in>set (snd (post_api_reminders_id_complete e nw req [])).
      (c = list_call e \<and> call_method c = ''GET'' \<or> call_method c = ''POST'') \<and>
      carries_secret rs c"
    unfolding assms
    using post_api_reminders_id_complete_calls [of e nw req] list_call_secret [of e]
      bulk_call_secret [of e] by blast
  from 1 2 3 4 5 show ?thesis by blast
qed

theorem backend_calls_carry_secret_witness:
  "snd (post_api_reminders_id_complete ex_env ex_net_up (ex_req\<lparr>params_id := ''a''\<rparr>) []) =
     [GET ''https://reminders-app.fly.dev/api/external/reminders?secret=assistant-secret-key'',
      POST ''https://reminders-app.fly.dev/api/external/bulk''
        [(''Content-Type'', ''application/json'')]
        (JObj [(''secret'', JStr ''assistant-secret-key''), (''action'', JStr ''complete''),
               (''ids'', JArr [JStr ''a''])])]
   \<and> carries_secret ''assistant-secret-key''
        (GET ''https://reminders-app.fly.dev/api/external/reminders?secret=assistant-secret-key'')
   \<and> carries_secret ''assistant-secret-key''
        (POST ''https://reminders-app.fly.dev/api/external/bulk''
          [(''Content-Type'', ''application/json'')]
          (JObj [(''secret'', JStr ''assistant-secret-key''), (''action'', JStr ''complete''),
                 (''ids'', JArr [JStr ''a''])]))"
proof -
  have run: "snd (post_api_reminders_id_complete ex_env ex_net_up (ex_req\<lparr>params_id := ''a''\<rparr>) []) =
     [GET ''https://reminders-app.fly.dev/api/external/reminders?secret=assistant-secret-key'',
      POST ''https://reminders-app.fly.dev/api/external/bulk''
        [(''Content-Type'', ''application/json'')]
        (JObj [(''secret'', JStr ''assistant-secret-key''), (''action'', JStr ''complete''),
               (''ids'', JArr [JStr ''a''])])]"
    by (simp add: post_api_reminders_id_complete_def eff_defs ex_net_up_def ex_env_def ex_req_def
        ex_list_def list_call_def bulk_call_def GET_def POST_def reminders_app_def secret_text_def
        secret_value_def env_or_def JSON_stringify_def strict_eq_str_def)
  from backend_calls_carry_secret [where e = ex_env and nw = ex_net_up
      and req = "ex_req\<lparr>params_id := ''a''\<rparr>", OF refl refl]
  have "\<forall>c\<in>set (snd (post_api_reminders_id_complete ex_env ex_net_up
          (ex_req\<lparr>params_id := ''a''\<rparr>) [])).
        carries_secret (env_or (REMINDERS_API_SECRET ex_env) ''assistant-secret-key'') c"
    by blast
  with run show ?thesis
    by (simp add: ex_env_def env_or_def)
qed

text \<open>
  The claim as written fails on the creation call: its URL has no query string, the
  secret travels in the body.
\<close>

theorem backend_calls_secret_counterexample:
  "snd (post_api_reminders ex_env ex_net_up
         (ex_req\<lparr>body := Some (JObj [(''title'', JStr ''Buy milk'')])\<rparr>) []) =
     [\<lparr>call_method = ''POST'',
       call_url = ''https://reminders-app.fly.dev/api/external/reminder'',
       call_headers = [(''Content-Type'', ''application/json'')],
       call_body = Some (JObj
         [(''secret'', JStr ''assistant-secret-key''),
          (''title'', JStr ''Buy milk''), (''notes'', JStr []), (''priority'', JStr ''normal'')])\<rparr>]
   \<and> query_of ''https://reminders-app.fly.dev/api/external/reminder'' = []
   \<and> \<not> secret_in_query ''https://reminders-app.fly.dev/api/external/reminder''
         ''assistant-secret-key''"
  by (simp add: post_api_reminders_def eff_defs ex_net_up_def ex_env_def ex_req_def
      create_call_def POST_def reminders_app_def secret_value_def env_or_def JSON_stringify_def default_to_def query_of_def secret_in_query_def)

section \<open>Upstream failures\<close>

lemma fetch_json_status:
  "and_then (fetch (with_status f nw) c) (\<lambda>r. and_then (json_of r) k) =
   and_then (fetch nw c) (\<lambda>r. and_then (json_of r) k)"
  by (auto simp add: eff_defs with_status_def fun_eq_iff split: upstream.splits option.splits)

lemma reminders_summary_status:
  "reminders_summary e (with_status f nw) = reminders_summary e nw"
  by (simp add: reminders_summary_def fetch_json_status)

lemma seminars_summary_status:
  "seminars_summary e (with_status f nw) = seminars_summary e nw"
  by (simp add: seminars_summary_def fetch_json_status)

lemma post_api_reminders_status:
  "post_api_reminders e (with_status f nw) req = post_api_reminders e nw req"
  by (simp add: post_api_reminders_def fetch_json_status)

lemma post_api_reminders_id_complete_status:
  "post_api_reminders_id_complete e (with_status f nw) req =
   post_api_reminders_id_complete e nw req"
  by (simp add: post_api_reminders_id_complete_def fetch_json_status cong: if_cong)

lemma get_api_reminders_status:
  "get_api_reminders e (with_status f nw) req = get_api_reminders e nw req"
  by (simp add: get_api_reminders_def fetch_json_status)

lemma get_api_overview_jwt_status:
  "get_api_overview_jwt e (with_status f nw) now = get_api_overview_jwt e nw now"
  by (simp add: get_api_overview_jwt_def reminders_summary_status seminars_summary_status
      fun_eq_iff)

lemma get_api_overview_cookie_status:
  "get_api_overview_cookie e (with_status f nw) now = get_api_overview_cookie e nw now"
  by (simp add: get_api_overview_cookie_def reminders_summary_status fun_eq_iff)

lemma post_api_reminders_failure:
  "\<exists>c\<in>set (snd (post_api_reminders e nw req [])). call_fails nw c \<Longrightarrow>
   fst (post_api_reminders e nw req []) =
     Json 500 (JObj [(''error'', JStr ''Failed to create reminder'')])"
  by (auto simp add: post_api_reminders_def eff_defs call_fails_def
      split: upstream.splits option.splits sum.splits)

lemma post_api_reminders_forward:
  "c \<in> set (snd (post_api_reminders e nw req [])) \<Longrightarrow> nw c = Answer st (Some d) \<Longrightarrow>
   fst (post_api_reminders e nw req []) = Json 200 d"
  by (auto simp add: post_api_reminders_def eff_defs
      split: upstream.splits option.splits sum.splits)

lemma list_call_not_bulk: "list_call e \<noteq> bulk_call e c rid"
  by (simp add: list_call_def bulk_call_def GET_def POST_def)

lemma post_api_reminders_id_complete_failure:
  "\<exists>c\<in>set (snd (post_api_reminders_id_complete e nw req [])). call_fails nw c \<Longrightarrow>
   fst (post_api_reminders_id_complete e nw req []) =
     Json 500 (JObj [(''error'', JStr ''Failed to update reminder'')])"
  using list_call_not_bulk [of e]
  by (auto simp add: post_api_reminders_id_complete_def eff_defs call_fails_def
      split: upstream.splits option.splits sum.splits if_splits)

lemma get_api_reminders_failure:
  "\<exists>c\<in>set (snd (get_api_reminders e nw req [])). call_fails nw c \<Longrightarrow>
   fst (get_api_reminders e nw req []) =
     Json 500 (JObj [(''error'', JStr ''Failed to fetch reminders'')])"
  by (auto simp add: get_api_reminders_def eff_defs call_fails_def
      split: upstream.splits option.splits sum.splits)

lemma reminders_calls_differ: "reminders_today_call e \<noteq> reminders_stats_call e"
  by (simp add: reminders_today_call_def reminders_stats_call_def GET_def)

lemma seminars_calls_differ: "seminars_stats_call e \<noteq> seminars_upcoming_call e"
  by (simp add: seminars_stats_call_def seminars_upcoming_call_def GET_def)

lemma reminders_summary_failure:
  "\<exists>c\<in>set (snd (reminders_summary e nw [])). call_fails nw c \<Longrightarrow>
   throws (reminders_summary e nw)"
  using reminders_calls_differ [of e]
  unfolding reminders_summary_def eff_defs call_fails_def throws_def
  by (auto split: upstream.splits option.splits sum.splits prod.splits)

lemma seminars_summary_failure:
  "\<exists>c\<in>set (snd (seminars_summary e nw [])). call_fails nw c \<Longrightarrow>
   throws (seminars_summary e nw)"
  using seminars_calls_differ [of e]
  unfolding seminars_summary_def eff_defs call_fails_def throws_def
  by (auto split: upstream.splits option.splits sum.splits prod.splits)


text \<open>
  Claim C7, as the code has it. A call fails when \<^verbatim>\<open>fetch\<close> rejects or the body is
  not JSON. If any call issued by a proxy handler fails, the handler answers 500 with
  its generic message; if any call of a backend's overview block fails, that slot is
  the error marker and the overview still answers. No handler reads the upstream
  status: replacing every status by any other leaves each handler's response and calls
  unchanged, and creation forwards the JSON body of any answer with status 200.
\<close>

theorem upstream_failure_handling:
  "((\<exists>c\<in>set (snd (post_api_reminders e nw req [])). call_fails nw c) \<longrightarrow>
      fst (post_api_reminders e nw req []) =
        Json 500 (JObj [(''error'', JStr ''Failed to create reminder'')]))
   \<and> ((\<exists>c\<in>set (snd (post_api_reminders_id_complete e nw req [])). call_fails nw c) \<longrightarrow>
      fst (post_api_reminders_id_complete e nw req []) =
        Json 500 (JObj [(''error'', JStr ''Failed to update reminder'')]))
   \<and> ((\<exists>c\<in>set (snd (get_api_reminders e nw req [])). call_fails nw c) \<longrightarrow>
      fst (get_api_reminders e nw req []) =
        Json 500 (JObj [(''error'', JStr ''Failed to fetch reminders'')]))
   \<and> ((\<exists>c\<in>set (snd (reminders_summary e nw [])). call_fails nw c) \<longrightarrow>
      slot (fst (get_api_overview_jwt e nw now [])) ''reminders'' = Some failed_to_load \<and>
      slot (fst (get_api_overview_cookie e nw now [])) ''reminders'' = Some failed_to_load)
   \<and> ((\<exists>c\<in>set (snd (seminars_summary e nw [])). call_fails nw c) \<longrightarrow>
      slot (fst (get_api_overview_jwt e nw now [])) ''seminars'' = Some failed_to_load)
   \<and> (\<forall>c st d. c \<in> set (snd (post_api_reminders e nw req [])) \<and> nw c = Answer st (Some d) \<longrightarrow>
      fst (post_api_reminders e nw req []) = Json 200 d)
   \<and> post_api_reminders e (with_status f nw) req = post_api_reminders e nw req
   \<and> post_api_reminders_id_complete e (with_status f nw) req =
       post_api_reminders_id_complete e nw req
   \<and> get_api_reminders e (with_status f nw) req = get_api_reminders e nw req
   \<and> get_api_overview_jwt e (with_status f nw) now = get_api_overview_jwt e nw now
   \<and> get_api_overview_cookie e (with_status f nw) now = get_api_overview_cookie e nw now"
proof -
  have rem: "\<exists>c\<in>set (snd (reminders_summary e nw [])). call_fails nw c \<Longrightarrow>
      slot (fst (get_api_overview_jwt e nw now [])) ''reminders'' = Some failed_to_load \<and>
      slot (fst (get_api_overview_cookie e nw now [])) ''reminders'' = Some failed_to_load"
    using reminders_summary_failure [of e nw]
    unfolding overview_jwt_body overview_cookie_body throws_def
    by (cases "fst (reminders_summary e nw [])") (simp_all add: slot_def property_def)
  have sem: "\<exists>c\<in>set (snd (seminars_summary e nw [])). call_fails nw c \<Longrightarrow>
      slot (fst (get_api_overview_jwt e nw now [])) ''seminars'' = Some failed_to_load"
    using seminars_summary_failure [of e nw]
    unfolding overview_jwt_body throws_def
    by (cases "fst (seminars_summary e nw [])") (simp_all add: slot_def property_def)
  have fwd: "\<forall>c st d. c \<in> set (snd (post_api_reminders e nw req [])) \<and>
        nw c = Answer st (Some d) \<longrightarrow> fst (post_api_reminders e nw req []) = Json 200 d"
    using post_api_reminders_forward [of _ e nw req] by blast
  from rem sem fwd post_api_reminders_failure [of e nw req]
    post_api_reminders_id_complete_failure [of e nw req] get_api_reminders_failure [of e nw req]
  show ?thesis
    by (simp only: post_api_reminders_status post_api_reminders_id_complete_status
        get_api_reminders_status get_api_overview_jwt_status get_api_overview_cookie_status
        simp_thms) blast
qed

theorem upstream_failure_handling_witness:
  "call_fails ex_net_down
     (create_call ex_env (Some (JStr ''Buy milk'')) (JStr []) (JStr ''normal''))
   \<and> post_api_reminders ex_env ex_net_down
       (ex_req\<lparr>body := Some (JObj [(''title'', JStr ''Buy milk'')])\<rparr>) [] =
     (Json 500 (JObj [(''error'', JStr ''Failed to create reminder'')]),
      [create_call ex_env (Some (JStr ''Buy milk'')) (JStr []) (JStr ''normal'')])"
proof -
  have run: "snd (post_api_reminders ex_env ex_net_down
       (ex_req\<lparr>body := Some (JObj [(''title'', JStr ''Buy milk'')])\<rparr>) []) =
      [create_call ex_env (Some (JStr ''Buy milk'')) (JStr []) (JStr ''normal'')]"
    by (simp add: post_api_reminders_def eff_defs ex_net_down_def ex_req_def default_to_def)
  have fails: "call_fails ex_net_down
      (create_call ex_env (Some (JStr ''Buy milk'')) (JStr []) (JStr ''normal''))"
    by (simp add: call_fails_def ex_net_down_def)
  from upstream_failure_handling [of ex_env ex_net_down
      "ex_req\<lparr>body := Some (JObj [(''title'', JStr ''Buy milk'')])\<rparr>"] run fails
  have "fst (post_api_reminders ex_env ex_net_down
       (ex_req\<lparr>body := Some (JObj [(''title'', JStr ''Buy milk'')])\<rparr>) []) =
      Json 500 (JObj [(''error'', JStr ''Failed to create reminder'')])"
    by simp
  with run fails show ?thesis by (simp add: prod_eq_iff)
qed

text \<open>
  The claim as written fails on a non-2xx answer: Reminders answers the creation call
  with 503 and a JSON document, and the dashboard answers 200 with that document.
\<close>

theorem upstream_failure_counterexample:
  "ex_net_503 (create_call ex_env (Some (JStr ''Buy milk'')) (JStr []) (JStr ''normal'')) =
     Answer 503 (Some (JObj [(''error'', JStr ''backend down'')]))
   \<and> post_api_reminders ex_env ex_net_503
       (ex_req\<lparr>body := Some (JObj [(''title'', JStr ''Buy milk'')])\<rparr>) [] =
     (Json 200 (JObj [(''error'', JStr ''backend down'')]),
      [create_call ex_env (Some (JStr ''Buy milk'')) (JStr []) (JStr ''normal'')])"
  by (simp add: post_api_reminders_def eff_defs ex_net_503_def ex_req_def default_to_def)

end
